theory Spec2Isabelle
  imports Main
begin

section \<open>The bulk upload propagator (src/libsync/bulkpropagatorjob.cpp)\<close>

text \<open>
  A shallow embedding of \<^verbatim>\<open>BulkPropagatorJob\<close>. The job mutates the propagator, the
  journal and the items it holds through pointers; here every member function takes the
  state and returns the new one, together with the item it changed. Signals, journal
  commits and calls that leave the file are appended to a trace, so that the order of
  effects can be stated. Integers of the source (\<^verbatim>\<open>qint64\<close>, \<^verbatim>\<open>time_t\<close>, \<^verbatim>\<open>int\<close>) are
  \<open>int\<close>; the arithmetic of the file stays far inside their range for every size and
  time stamp a file system reports, and signed overflow is undefined in the source.
  \<^verbatim>\<open>QString\<close> and \<^verbatim>\<open>QByteArray\<close> are both \<open>string\<close>, so \<^verbatim>\<open>toLatin1\<close> and \<^verbatim>\<open>toUtf8\<close>
  are the identity, and \<^verbatim>\<open>tr\<close> returns its argument.
\<close>

subsection \<open>Data\<close>

datatype Status =
    NoStatus | FatalError | NormalError | SoftError | Success | Conflict
  | FileIgnored | FileLocked | Restoration | DetailError | BlacklistedError
  | FileNameInvalid

text \<open>
  Modelled from the spec: the enum \<^verbatim>\<open>csync_instructions_e\<close> is declared outside src/. The
  spec names \<^verbatim>\<open>NEW\<close>, \<^verbatim>\<open>TYPE_CHANGE\<close> and \<^verbatim>\<open>UPDATE_METADATA\<close> and leaves the rest
  open; every other instruction is \<open>CSYNC_INSTRUCTION_OTHER\<close>.
\<close>

datatype Instruction =
    CSYNC_INSTRUCTION_NEW | CSYNC_INSTRUCTION_TYPE_CHANGE
  | CSYNC_INSTRUCTION_UPDATE_METADATA | CSYNC_INSTRUCTION_OTHER

text \<open>\<^verbatim>\<open>SyncFileItem\<close>: the fields this file reads or writes (prefix \<open>it_\<close>).\<close>

record SyncFileItem =
  it_file :: string
  it_renameTarget :: string
  it_originalFile :: string
  it_size :: int
  it_modtime :: int
  it_etag :: string
  it_fileId :: string
  it_checksumHeader :: string
  it_status :: Status
  it_errorString :: string
  it_httpErrorCode :: nat
  it_instruction :: Instruction
  it_hasBlacklistEntry :: bool
  it_isRestoration :: bool
  it_responseTimeStamp :: string
  it_requestId :: string

text \<open>\<^verbatim>\<open>SyncJournalDb::UploadInfo\<close> (prefix \<open>ui_\<close>).\<close>

record UploadInfo =
  ui_valid :: bool
  ui_chunk :: int
  ui_transferid :: nat
  ui_modtime :: int
  ui_errorCount :: int
  ui_contentChecksum :: string
  ui_size :: int

text \<open>
  Modelled from the spec: the struct is declared in syncjournaldb.h, outside src/. A
  default-constructed \<^verbatim>\<open>UploadInfo()\<close> is the cleared record: not valid, every
  number zero, no checksum.
\<close>

definition UploadInfo_default :: UploadInfo where
  "UploadInfo_default =
     \<lparr>ui_valid = False, ui_chunk = 0, ui_transferid = 0, ui_modtime = 0,
      ui_errorCount = 0, ui_contentChecksum = [], ui_size = 0\<rparr>"

text \<open>\<^verbatim>\<open>UploadFileInfo\<close> (prefix \<open>fu_\<close>) and \<^verbatim>\<open>UploadFileParameters\<close> (prefix \<open>up_\<close>).\<close>

record UploadFileInfo =
  fu_file :: string
  fu_path :: string
  fu_size :: int

record UploadFileParameters =
  up_item :: SyncFileItem
  up_fileToUpload :: UploadFileInfo
  up_remotePath :: string
  up_localPath :: string
  up_fileSize :: int
  up_headers :: "string \<rightharpoonup> string"

record ConflictRecord =
  cr_valid :: bool
  cr_initialBasePath :: string
  cr_baseFileId :: string
  cr_baseModtime :: int
  cr_baseEtag :: string

datatype PinState = OnlineOnly | Unspecified | OtherPin

text \<open>The three outcomes of \<^verbatim>\<open>propagator()->updateMetadata\<close> that \<^verbatim>\<open>finalize\<close> tells apart.\<close>

datatype MetaResult = MetaError string | MetaLocked | MetaOk

text \<open>A JSON value of the reply; \<^verbatim>\<open>QJsonValue::toString\<close> is empty unless it is a string.\<close>

datatype JsonValue = JString string | JNumber int | JBool bool | JNull

type_synonym JsonObject = "string \<rightharpoonup> JsonValue"

datatype NetworkError = NoError | NetError nat

text \<open>What \<^verbatim>\<open>slotPutFinished\<close> reads from the finished \<^verbatim>\<open>PutMultiFileJob\<close> (prefix \<open>rp_\<close>).\<close>

record PutReply =
  rp_jobId :: nat
  rp_httpStatus :: nat
  rp_responseTimestamp :: string
  rp_requestId :: string
  rp_error :: NetworkError
  rp_replyArray :: "JsonObject list"
  rp_errorString :: string
  rp_replyContent :: string

text \<open>
  The trace: signals (\<open>EvItemCompleted\<close>, \<open>EvInsufficientRemoteStorage\<close>,
  \<open>EvSeenLockedFile\<close>, \<open>EvFinished\<close>), and the calls on the journal, the propagator,
  the VFS and the file system whose order matters.
\<close>

datatype Event =
    EvItemCompleted SyncFileItem
  | EvInsufficientRemoteStorage
  | EvSeenLockedFile string
  | EvFinished Status
  | EvScheduleNextJob
  | EvPropagatorAbort
  | EvJobAbort
  | EvSetUploadInfo string UploadInfo
  | EvCommit string
  | EvBlacklistUpdate SyncFileItem
  | EvWipeErrorBlacklistEntry string
  | EvSchedulePathForRemoteDiscovery string
  | EvUpdateMetadata string
  | EvSetPinState string PinState bool
  | EvSetPollInfo string string int int
  | EvRename string string bool
  | EvStartChecksum string string
  | EvOpenDevice string bool
  | EvStartPutJob nat "string list"
  | EvStartPollJob nat string
  | EvWarnFileIdChanged string string

text \<open>
  Helpers and settings that live outside this file: the propagator's path functions, the
  account's capabilities, \<^verbatim>\<open>common/checksums\<close>, \<^verbatim>\<open>classifyError\<close>,
  \<^verbatim>\<open>blacklistUpdate\<close>, the journal's conflict records and the process environment. They
  are parameters (prefix \<open>e_\<close>). \<open>e_blacklistUpdate\<close> returns the item as the blacklist
  update leaves it (the update changes the item in place; its writes to the journal's
  blacklist are the event \<open>EvBlacklistUpdate\<close>); \<open>e_classifyError\<close> returns the status
  and the new value of the \<^verbatim>\<open>anotherSyncNeeded\<close> flag it is handed by pointer.
\<close>

record Env =
  e_fullLocalPath :: "string \<Rightarrow> string"
  e_fullRemotePath :: "string \<Rightarrow> string"
  e_parentPath :: "string \<Rightarrow> string"
  e_hasCaseClashAccessibilityProblem :: "string \<Rightarrow> bool"
  e_supportedChecksumTypes :: "string list"
  e_uploadChecksumEnabled :: bool
  e_resetCodes :: "nat list"
  e_minimumFileAgeForUpload :: int
  e_lazyOps :: int
  e_conflictRecord :: "string \<Rightarrow> ConflictRecord"
  e_octetsToString :: "int \<Rightarrow> string"
  e_toNativeSeparators :: "string \<Rightarrow> string"
  e_parseEtag :: "string \<Rightarrow> string"
  e_parseChecksumHeader :: "string \<Rightarrow> string \<times> string"
  e_makeChecksumHeader :: "string \<Rightarrow> string \<Rightarrow> string"
  e_blacklistUpdate :: "SyncFileItem \<Rightarrow> SyncFileItem"
  e_classifyError :: "NetworkError \<Rightarrow> nat \<Rightarrow> bool \<Rightarrow> string \<Rightarrow> Status \<times> bool"

text \<open>
  The world outside the process as one synchronous call chain sees it (prefix \<open>w_\<close>):
  the local file system, the clock in milliseconds, the metadata update and the VFS.
  Each stage that runs after an asynchronous wait is given the world of its own moment.
  \<open>w_deviceOpen\<close> is \<open>None\<close> when the upload device opens and the device's error
  string otherwise. \<open>w_inJobThread\<close> tells whether the chain runs in the thread the job
  object lives in, which is what \<^verbatim>\<open>QMetaObject::invokeMethod\<close> asks.
\<close>

record World =
  w_fileExists :: "string \<Rightarrow> bool"
  w_getModTime :: "string \<Rightarrow> int"
  w_getSize :: "string \<Rightarrow> int"
  w_rename :: "string \<Rightarrow> string \<Rightarrow> bool"
  w_verifyFileUnchanged :: "string \<Rightarrow> int \<Rightarrow> int \<Rightarrow> bool"
  w_isFileLocked :: "string \<Rightarrow> bool"
  w_deviceOpen :: "string \<Rightarrow> string option"
  w_currentMSecs :: int
  w_updateMetadata :: "SyncFileItem \<Rightarrow> MetaResult"
  w_pinState :: "string \<Rightarrow> PinState option"
  w_setPinState :: "string \<Rightarrow> PinState \<Rightarrow> bool"
  w_inJobThread :: bool

text \<open>
  A call on the job that is still to come: the functor \<^verbatim>\<open>scheduleSelfOrChild\<close> handed
  to the event loop for an item, or the slot connected to a running checksum job, with
  the item and the file the closure holds.
\<close>

datatype Call =
    CallStartUpload SyncFileItem
  | CallContentChecksum SyncFileItem UploadFileInfo nat
  | CallTransmissionChecksum SyncFileItem UploadFileInfo string

text \<open>
  The propagator's and the job's members. \<open>uploadInfo\<close> is the journal's table of
  upload records. \<open>pendingCalls\<close> holds the calls still to come that
  \<^verbatim>\<open>scheduleSelfOrChild\<close> leaves behind. Jobs are known by a number; \<open>nextJobId\<close>
  gives the next one.
\<close>

record Propagator =
  abortRequested :: bool
  anotherSyncNeeded :: bool
  folderQuota :: "string \<rightharpoonup> int"
  uploadInfo :: "string \<rightharpoonup> UploadInfo"
  finalStatus :: Status
  running :: bool
  items :: "SyncFileItem list"
  pendingCalls :: "Call list"
  uploadFileParameters :: "UploadFileParameters list"
  jobs :: "nat list"
  checksumsJobs :: "nat list"
  nextJobId :: nat
  trace :: "Event list"

definition emit :: "Event \<Rightarrow> Propagator \<Rightarrow> Propagator" where
  "emit e s = s\<lparr>trace := trace s @ [e]\<rparr>"

subsection \<open>The journal's upload records\<close>

text \<open>
  Modelled from the spec: \<^verbatim>\<open>SyncJournalDb::getUploadInfo\<close> and \<^verbatim>\<open>setUploadInfo\<close> are
  outside src/. The journal is a key-value store keyed by the file's path. Reading a
  path with no record gives the default record; storing a record that is not valid
  removes the path's record (the source stores \<^verbatim>\<open>UploadInfo()\<close> under the comment
  "Remove from the progress database").
\<close>

definition getUploadInfo :: "Propagator \<Rightarrow> string \<Rightarrow> UploadInfo" where
  "getUploadInfo s f = (case uploadInfo s f of None \<Rightarrow> UploadInfo_default | Some i \<Rightarrow> i)"

definition setUploadInfo :: "string \<Rightarrow> UploadInfo \<Rightarrow> Propagator \<Rightarrow> Propagator" where
  "setUploadInfo f i s =
     emit (EvSetUploadInfo f i)
       (s\<lparr>uploadInfo := (if ui_valid i then (uploadInfo s)(f \<mapsto> i) else (uploadInfo s)(f := None))\<rparr>)"

definition commit :: "string \<Rightarrow> Propagator \<Rightarrow> Propagator" where
  "commit tag s = emit (EvCommit tag) s"

subsection \<open>Small helpers of the file\<close>

text \<open>\<^verbatim>\<open>QString::contains\<close>: does \<open>ys\<close> occur in \<open>xs\<close> as a contiguous run.\<close>

fun containsStr :: "string \<Rightarrow> string \<Rightarrow> bool" where
  "containsStr [] ys = (ys = [])"
| "containsStr (x # xs) ys = (take (length ys) (x # xs) = ys \<or> containsStr xs ys)"

text \<open>\<^verbatim>\<open>QByteArray::number\<close>: the decimal digits of an integer.\<close>

fun digitsOf :: "nat \<Rightarrow> string" where
  "digitsOf n =
     (if n < 10 then [char_of (48 + n)] else digitsOf (n div 10) @ [char_of (48 + n mod 10)])"

definition numberStr :: "int \<Rightarrow> string" where
  "numberStr i = (if i < 0 then CHR ''-'' # digitsOf (nat (- i)) else digitsOf (nat i))"

definition jsonToString :: "JsonValue \<Rightarrow> string" where
  "jsonToString v = (case v of JString t \<Rightarrow> t | _ \<Rightarrow> [])"

text \<open>\<^verbatim>\<open>reply.value(key).toString()\<close>: empty when the key is missing.\<close>

definition replyValue :: "JsonObject \<Rightarrow> string \<Rightarrow> string" where
  "replyValue reply key = (case reply key of None \<Rightarrow> [] | Some v \<Rightarrow> jsonToString v)"

definition getHeaderFromJsonReply :: "JsonObject \<Rightarrow> string \<Rightarrow> string" where
  "getHeaderFromJsonReply reply headerName = replyValue reply headerName"

definition getEtagFromJsonReply :: "Env \<Rightarrow> JsonObject \<Rightarrow> string" where
  "getEtagFromJsonReply env reply =
     (let ocEtag = e_parseEtag env (replyValue reply ''OC-ETag'');
          etag = e_parseEtag env (replyValue reply ''ETag'')
      in if ocEtag = [] then etag else ocEtag)"

text \<open>
  \<^verbatim>\<open>fileIsStillChanging\<close>: \<^verbatim>\<open>qDateTimeFromTime_t\<close> turns the seconds of the item into
  milliseconds, \<^verbatim>\<open>msecsTo\<close> subtracts them from the clock.
\<close>

definition fileIsStillChanging :: "Env \<Rightarrow> World \<Rightarrow> SyncFileItem \<Rightarrow> bool" where
  "fileIsStillChanging env w item =
     (let msSinceMod = w_currentMSecs w - it_modtime item * 1000
      in msSinceMod < e_minimumFileAgeForUpload env \<and> msSinceMod > - 10000)"

subsection \<open>Completing an item\<close>

definition handleFileRestoration :: "SyncFileItem \<Rightarrow> string \<Rightarrow> SyncFileItem" where
  "handleFileRestoration item errorString =
     (if it_isRestoration item then
        (if it_status item = Success \<or> it_status item = Conflict
         then item\<lparr>it_status := Restoration\<rparr>
         else item\<lparr>it_errorString := it_errorString item @ ''; Restoration Failed: '' @ errorString\<rparr>)
      else
        (if it_errorString item = [] then item\<lparr>it_errorString := errorString\<rparr> else item))"

definition handleBlackList :: "Env \<Rightarrow> Propagator \<Rightarrow> SyncFileItem \<Rightarrow> Propagator \<times> SyncFileItem" where
  "handleBlackList env s item =
     (if it_status item \<in> {SoftError, FatalError, NormalError, DetailError} then
        (emit (EvBlacklistUpdate item) s, e_blacklistUpdate env item)
      else if it_status item \<in> {Success, Restoration} then
        (if it_hasBlacklistEntry item then
           (let s1 = emit (EvWipeErrorBlacklistEntry (it_file item)) s
            in if it_originalFile item \<noteq> it_file item
               then (emit (EvWipeErrorBlacklistEntry (it_originalFile item)) s1, item)
               else (s1, item))
         else (s, item))
      else (s, item))"

text \<open>
  Modelled from the spec: \<^verbatim>\<open>OwncloudPropagator::abort\<close> is outside src/. It is the
  propagator-wide abort: the call is recorded and the abort flag is raised.
\<close>

definition propagatorAbort :: "Propagator \<Rightarrow> Propagator" where
  "propagatorAbort s = emit EvPropagatorAbort (s\<lparr>abortRequested := True\<rparr>)"

text \<open>
  \<^verbatim>\<open>handleJobDoneErrors\<close>. The parameter \<open>status\<close> of the source is only logged.
\<close>

definition handleJobDoneErrors :: "Propagator \<Rightarrow> SyncFileItem \<Rightarrow> Status \<Rightarrow> Propagator" where
  "handleJobDoneErrors s item status =
     (let s1 = (if it_status item = FatalError then propagatorAbort s else s)
      in case it_status item of
           BlacklistedError \<Rightarrow> s1\<lparr>finalStatus := NormalError\<rparr>
         | Conflict \<Rightarrow> s1\<lparr>finalStatus := NormalError\<rparr>
         | FatalError \<Rightarrow> s1\<lparr>finalStatus := NormalError\<rparr>
         | FileIgnored \<Rightarrow> s1\<lparr>finalStatus := NormalError\<rparr>
         | FileLocked \<Rightarrow> s1\<lparr>finalStatus := NormalError\<rparr>
         | FileNameInvalid \<Rightarrow> s1\<lparr>finalStatus := NormalError\<rparr>
         | NoStatus \<Rightarrow> s1\<lparr>finalStatus := NormalError\<rparr>
         | NormalError \<Rightarrow> s1\<lparr>finalStatus := NormalError\<rparr>
         | Restoration \<Rightarrow> s1\<lparr>finalStatus := NormalError\<rparr>
         | SoftError \<Rightarrow> s1\<lparr>finalStatus := NormalError\<rparr>
         | DetailError \<Rightarrow> s1\<lparr>finalStatus := DetailError\<rparr>
         | Success \<Rightarrow> s1)"

text \<open>
  \<^verbatim>\<open>done\<close> (the name is a keyword here, hence \<open>doneItem\<close>). It returns the state and the
  item as the call leaves it.
\<close>

definition doneItem ::
  "Env \<Rightarrow> Propagator \<Rightarrow> SyncFileItem \<Rightarrow> Status \<Rightarrow> string \<Rightarrow> Propagator \<times> SyncFileItem" where
  "doneItem env s item status errorString =
     (let item1 = item\<lparr>it_status := status, it_errorString := errorString\<rparr>;
          item2 = handleFileRestoration item1 errorString;
          item3 = (if abortRequested s \<and> (it_status item2 = NormalError \<or> it_status item2 = FatalError)
                   then item2\<lparr>it_status := SoftError\<rparr> else item2);
          (s1, item4) = handleBlackList env s item3;
          s2 = handleJobDoneErrors s1 item4 status
      in (emit (EvItemCompleted item4) s2, item4))"

definition abortWithError ::
  "Env \<Rightarrow> Propagator \<Rightarrow> SyncFileItem \<Rightarrow> Status \<Rightarrow> string \<Rightarrow> Propagator \<times> SyncFileItem" where
  "abortWithError env s item status error = doneItem env (emit EvJobAbort s) item status error"

subsection \<open>Headers\<close>

definition conflictHeaders :: "ConflictRecord \<Rightarrow> (string \<rightharpoonup> string) \<Rightarrow> (string \<rightharpoonup> string)" where
  "conflictHeaders cr h =
     (let h1 = h(''OC-Conflict'' \<mapsto> ''1'');
          h2 = (if cr_initialBasePath cr \<noteq> []
                then h1(''OC-ConflictInitialBasePath'' \<mapsto> cr_initialBasePath cr) else h1);
          h3 = (if cr_baseFileId cr \<noteq> []
                then h2(''OC-ConflictBaseFileId'' \<mapsto> cr_baseFileId cr) else h2);
          h4 = (if cr_baseModtime cr \<noteq> - 1
                then h3(''OC-ConflictBaseMtime'' \<mapsto> numberStr (cr_baseModtime cr)) else h3)
      in if cr_baseEtag cr \<noteq> [] then h4(''OC-ConflictBaseEtag'' \<mapsto> cr_baseEtag cr) else h4)"

definition headers :: "Env \<Rightarrow> SyncFileItem \<Rightarrow> (string \<rightharpoonup> string)" where
  "headers env item =
     (let h0 = [''Content-Type'' \<mapsto> ''application/octet-stream'',
                ''X-File-Mtime'' \<mapsto> numberStr (it_modtime item)];
          h1 = (if e_lazyOps env \<noteq> 0 then h0(''OC-LazyOps'' \<mapsto> ''true'') else h0);
          h2 = (if containsStr (it_file item) ''.sys.admin#recall#''
                then h1(''OC-Tag'' \<mapsto> ''.sys.admin#recall#'') else h1);
          h3 = (if it_etag item \<noteq> [] \<and> it_etag item \<noteq> ''empty_etag''
                   \<and> it_instruction item \<noteq> CSYNC_INSTRUCTION_NEW
                   \<and> it_instruction item \<noteq> CSYNC_INSTRUCTION_TYPE_CHANGE
                then h2(''If-Match'' \<mapsto> CHR 0x22 # it_etag item @ [CHR 0x22]) else h2);
          conflictRecord = e_conflictRecord env (it_file item)
      in if cr_valid conflictRecord then conflictHeaders conflictRecord h3 else h3)"

subsection \<open>Errors of the bulk PUT\<close>

definition checkResettingErrors :: "Env \<Rightarrow> Propagator \<Rightarrow> SyncFileItem \<Rightarrow> Propagator" where
  "checkResettingErrors env s item =
     (if it_httpErrorCode item = 412 \<or> it_httpErrorCode item \<in> set (e_resetCodes env) then
        (let uploadInfo0 = getUploadInfo s (it_file item);
             uploadInfo1 = uploadInfo0\<lparr>ui_errorCount := ui_errorCount uploadInfo0 + 1\<rparr>;
             uploadInfo2 = (if ui_errorCount uploadInfo1 > 3 then UploadInfo_default else uploadInfo1)
         in commit ''Upload info'' (setUploadInfo (it_file item) uploadInfo2 s))
      else s)"

definition commonErrorHandling ::
  "Env \<Rightarrow> Propagator \<Rightarrow> SyncFileItem \<Rightarrow> UploadFileInfo \<Rightarrow> PutReply \<Rightarrow> Propagator \<times> SyncFileItem" where
  "commonErrorHandling env s item fileToUpload job =
     (let errorString = rp_errorString job;
          replyContent = rp_replyContent job;
          s1 = (if it_httpErrorCode item = 412
                then (emit (EvSchedulePathForRemoteDiscovery (it_file item)) s)\<lparr>anotherSyncNeeded := True\<rparr>
                else s);
          s2 = checkResettingErrors env s1 item;
          (status, another) =
             e_classifyError env (rp_error job) (it_httpErrorCode item) (anotherSyncNeeded s2) replyContent;
          s3 = s2\<lparr>anotherSyncNeeded := another\<rparr>
      in if it_httpErrorCode item = 507 then
           (let path = e_parentPath env (it_file item);
                quota = (case folderQuota s3 path of
                           Some q \<Rightarrow> min q (fu_size fileToUpload - 1)
                         | None \<Rightarrow> fu_size fileToUpload - 1);
                s4 = emit EvInsufficientRemoteStorage (s3\<lparr>folderQuota := (folderQuota s3)(path \<mapsto> quota)\<rparr>)
            in abortWithError env s4 item DetailError
                 (''Upload of '' @ e_octetsToString env (fu_size fileToUpload)
                    @ '' exceeds the quota for the folder''))
         else abortWithError env s3 item status errorString)"

definition checkFileStillExists ::
  "Env \<Rightarrow> World \<Rightarrow> Propagator \<Rightarrow> SyncFileItem \<Rightarrow> bool \<Rightarrow> string
     \<Rightarrow> Propagator \<times> SyncFileItem \<times> bool" where
  "checkFileStillExists env w s item finished fullFilePath =
     (if \<not> w_fileExists w fullFilePath then
        (if \<not> finished then
           (let (s1, item1) = abortWithError env s item SoftError ''The local file was removed during sync.''
            in (s1, item1, False))
         else (s\<lparr>anotherSyncNeeded := True\<rparr>, item, True))
      else (s, item, True))"

definition checkFileChanged ::
  "Env \<Rightarrow> World \<Rightarrow> Propagator \<Rightarrow> SyncFileItem \<Rightarrow> bool \<Rightarrow> string
     \<Rightarrow> Propagator \<times> SyncFileItem \<times> bool" where
  "checkFileChanged env w s item finished fullFilePath =
     (if \<not> w_verifyFileUnchanged w fullFilePath (it_size item) (it_modtime item) then
        (let s0 = s\<lparr>anotherSyncNeeded := True\<rparr>
         in if \<not> finished then
              (let (s1, item1) = abortWithError env s0 item SoftError ''Local file changed during sync.''
               in (s1, item1, False))
            else (s0, item, True))
      else (s, item, True))"

text \<open>
  \<^verbatim>\<open>computeFileId\<close>; the warning of the source is the event \<open>EvWarnFileIdChanged\<close>.
\<close>

definition computeFileId :: "Propagator \<Rightarrow> SyncFileItem \<Rightarrow> JsonObject \<Rightarrow> Propagator \<times> SyncFileItem" where
  "computeFileId s item fileReply =
     (let fid = getHeaderFromJsonReply fileReply ''OC-FileID''
      in if fid \<noteq> [] then
           ((if it_fileId item \<noteq> [] \<and> it_fileId item \<noteq> fid
             then emit (EvWarnFileIdChanged (it_fileId item) fid) s else s),
            item\<lparr>it_fileId := fid\<rparr>)
         else (s, item))"

subsection \<open>Loops over the batch\<close>

text \<open>
  \<^verbatim>\<open>for (auto &oneFile : _uploadFileParameters)\<close> with a \<^verbatim>\<open>return\<close> inside. One
  round gives the state, the entry as the round leaves it, and whether the loop goes on
  (\<open>False\<close> is the \<^verbatim>\<open>return\<close> inside the loop). The rounds run in the order of the
  list until one says stop; the entries after it are left as they are. The last
  component of the result tells whether the loop ran to its end. The caller stores the
  list of entries back, and no round reads the list.
\<close>

fun forEachFile ::
  "(Propagator \<Rightarrow> UploadFileParameters \<Rightarrow> Propagator \<times> UploadFileParameters \<times> bool)
     \<Rightarrow> Propagator \<Rightarrow> UploadFileParameters list
     \<Rightarrow> Propagator \<times> UploadFileParameters list \<times> bool" where
  "forEachFile body s [] = (s, [], True)"
| "forEachFile body s (oneFile # rest) =
     (case body s oneFile of
        (s1, oneFile1, go) \<Rightarrow>
          if go then
            (case forEachFile body s1 rest of
               (s2, rest1, ok) \<Rightarrow> (s2, oneFile1 # rest1, ok))
          else (s1, oneFile1 # rest, False))"

subsection \<open>Building the batch\<close>

definition triggerOne ::
  "Env \<Rightarrow> World \<Rightarrow> Propagator \<Rightarrow> UploadFileParameters
     \<Rightarrow> Propagator \<times> UploadFileParameters \<times> bool" where
  "triggerOne env w s oneFile =
     (case w_deviceOpen w (up_localPath oneFile) of
        Some errorString \<Rightarrow>
          (let s1 = emit (EvOpenDevice (up_localPath oneFile) False) s;
               s2 = (if w_isFileLocked w (up_localPath oneFile)
                     then emit (EvSeenLockedFile (up_localPath oneFile)) s1 else s1);
               (s3, item1) = abortWithError env s2 (up_item oneFile) SoftError errorString
           in (s3, oneFile\<lparr>up_item := item1\<rparr>, False))
      | None \<Rightarrow>
          (emit (EvOpenDevice (up_localPath oneFile) True) s,
           oneFile\<lparr>up_headers := (up_headers oneFile)(''X-File-Path'' \<mapsto> up_remotePath oneFile)\<rparr>,
           True))"

definition triggerUpload :: "Env \<Rightarrow> World \<Rightarrow> Propagator \<Rightarrow> Propagator" where
  "triggerUpload env w s =
     (case forEachFile (triggerOne env w) s (uploadFileParameters s) of
        (s1, files, ok) \<Rightarrow>
          (let s2 = s1\<lparr>uploadFileParameters := files\<rparr>
           in if \<not> ok then s2
              else (let job = nextJobId s2
                    in emit (EvStartPutJob job (map up_remotePath files))
                         (s2\<lparr>jobs := jobs s2 @ [job], nextJobId := Suc job\<rparr>))))"

definition doStartUpload ::
  "Env \<Rightarrow> World \<Rightarrow> Propagator \<Rightarrow> SyncFileItem \<Rightarrow> UploadFileInfo \<Rightarrow> string \<Rightarrow> Propagator" where
  "doStartUpload env w s item fileToUpload transmissionChecksumHeader =
     (if abortRequested s then s
      else
        (let pi = \<lparr>ui_valid = True, ui_chunk = 0, ui_transferid = 0,
                   ui_modtime = it_modtime item, ui_errorCount = 0,
                   ui_contentChecksum = it_checksumHeader item, ui_size = it_size item\<rparr>;
             s1 = commit ''Upload info'' (setUploadInfo (it_file item) pi s);
             fileSize = fu_size fileToUpload;
             currentHeaders = (headers env item)(''Content-Length'' \<mapsto> numberStr fileSize);
             renamed =
               (if it_renameTarget item \<noteq> [] \<and> it_file item \<noteq> it_renameTarget item then
                  (let originalFilePathAbsolute = e_fullLocalPath env (it_file item);
                       newFilePathAbsolute = e_fullLocalPath env (it_renameTarget item);
                       renameSuccess = w_rename w originalFilePathAbsolute newFilePathAbsolute;
                       s2 = emit (EvRename originalFilePathAbsolute newFilePathAbsolute renameSuccess) s1
                   in if \<not> renameSuccess then
                        Inl (fst (doneItem env s2 item NormalError
                               (''File contains trailing spaces and couldn'' @ [CHR 0x27] @ ''t be renamed'')))
                      else
                        Inr (s2,
                             item\<lparr>it_file := it_renameTarget item,
                                  it_modtime := w_getModTime w newFilePathAbsolute\<rparr>,
                             fileToUpload\<lparr>fu_file := it_renameTarget item,
                                          fu_path := e_fullLocalPath env (it_renameTarget item)\<rparr>))
                else Inr (s1, item, fileToUpload))
         in case renamed of
              Inl s3 \<Rightarrow> s3
            | Inr (s3, item1, fileToUpload1) \<Rightarrow>
                (let path = fu_file fileToUpload1;
                     newUploadFile =
                       \<lparr>up_item = item1, up_fileToUpload = fileToUpload1,
                        up_remotePath = e_fullRemotePath env path,
                        up_localPath = fu_path fileToUpload1, up_fileSize = fileSize,
                        up_headers = currentHeaders(''X-File-MD5'' \<mapsto> transmissionChecksumHeader)\<rparr>;
                     s4 = s3\<lparr>uploadFileParameters := uploadFileParameters s3 @ [newUploadFile]\<rparr>
                 in if checksumsJobs s4 = [] then triggerUpload env w s4 else s4)))"

definition slotOnErrorStartFolderUnlock ::
  "Env \<Rightarrow> Propagator \<Rightarrow> SyncFileItem \<Rightarrow> Status \<Rightarrow> string \<Rightarrow> Propagator" where
  "slotOnErrorStartFolderUnlock env s item status errorString =
     fst (doneItem env s item status errorString)"

definition slotStartUpload ::
  "Env \<Rightarrow> World \<Rightarrow> Propagator \<Rightarrow> SyncFileItem \<Rightarrow> UploadFileInfo \<Rightarrow> string \<Rightarrow> string \<Rightarrow> Propagator" where
  "slotStartUpload env w s item fileToUpload transmissionChecksumType transmissionChecksum =
     (let transmissionChecksumHeader =
            e_makeChecksumHeader env transmissionChecksumType transmissionChecksum;
          item1 = (if it_checksumHeader item = []
                   then item\<lparr>it_checksumHeader := transmissionChecksumHeader\<rparr> else item);
          fullFilePath = fu_path fileToUpload;
          originalFilePath = e_fullLocalPath env (it_file item1)
      in if \<not> w_fileExists w fullFilePath then
           slotOnErrorStartFolderUnlock env s item1 SoftError
             (''File Removed (start upload) '' @ fullFilePath)
         else
           (let prevModtime = it_modtime item1;
                item2 = item1\<lparr>it_modtime := w_getModTime w originalFilePath\<rparr>
            in if prevModtime \<noteq> it_modtime item2 then
                 slotOnErrorStartFolderUnlock env (s\<lparr>anotherSyncNeeded := True\<rparr>) item2 SoftError
                   ''Local file changed during syncing. It will be resumed.''
               else
                 (let fileToUpload1 = fileToUpload\<lparr>fu_size := w_getSize w fullFilePath\<rparr>;
                      item3 = item2\<lparr>it_size := w_getSize w originalFilePath\<rparr>
                  in if fileIsStillChanging env w item3 then
                       slotOnErrorStartFolderUnlock env (s\<lparr>anotherSyncNeeded := True\<rparr>) item3 SoftError
                         ''Local file changed during sync.''
                     else doStartUpload env w s item3 fileToUpload1 transmissionChecksum)))"

text \<open>
  Where a call chain ends: it returned, or it started a \<^verbatim>\<open>ComputeChecksum\<close> job and
  goes on when the job reports its checksum. The content job is kept in
  \<^verbatim>\<open>_checksumsJobs\<close> under its number; the transmission job is not.
\<close>

datatype Stage =
    Returned Propagator
  | AwaitContentChecksum Propagator SyncFileItem UploadFileInfo nat
  | AwaitTransmissionChecksum Propagator SyncFileItem UploadFileInfo string

definition slotComputeTransmissionChecksum ::
  "Env \<Rightarrow> World \<Rightarrow> Propagator \<Rightarrow> SyncFileItem \<Rightarrow> UploadFileInfo \<Rightarrow> string \<Rightarrow> string \<Rightarrow> Stage" where
  "slotComputeTransmissionChecksum env w s item fileToUpload contentChecksumType contentChecksum =
     (let item1 = item\<lparr>it_checksumHeader :=
                         e_makeChecksumHeader env contentChecksumType contentChecksum\<rparr>
      in if contentChecksumType \<in> set (e_supportedChecksumTypes env) then
           Returned (slotStartUpload env w s item1 fileToUpload contentChecksumType contentChecksum)
         else
           (let checksumType = (if e_uploadChecksumEnabled env then ''MD5'' else [])
            in AwaitTransmissionChecksum
                 (emit (EvStartChecksum checksumType (fu_path fileToUpload)) s)
                 item1 fileToUpload checksumType))"

definition slotComputeContentChecksum ::
  "Env \<Rightarrow> World \<Rightarrow> Propagator \<Rightarrow> SyncFileItem \<Rightarrow> UploadFileInfo \<Rightarrow> Stage" where
  "slotComputeContentChecksum env w s item fileToUpload =
     (if abortRequested s then Returned s
      else
        (let filePath = e_fullLocalPath env (it_file item);
             item1 = item\<lparr>it_modtime := w_getModTime w filePath\<rparr>;
             checksumType = ''MD5'';
             (existingChecksumType, existingChecksum) =
                e_parseChecksumHeader env (it_checksumHeader item1)
         in if existingChecksumType = checksumType then
              slotComputeTransmissionChecksum env w s item1 fileToUpload checksumType existingChecksum
            else
              (let job = nextJobId s;
                   s1 = emit (EvStartChecksum checksumType (fu_path fileToUpload))
                          (s\<lparr>checksumsJobs := checksumsJobs s @ [job], nextJobId := Suc job\<rparr>)
               in AwaitContentChecksum s1 item1 fileToUpload job)))"

definition checksumJobDestroyed :: "nat \<Rightarrow> Propagator \<Rightarrow> Propagator" where
  "checksumJobDestroyed job s = s\<lparr>checksumsJobs := removeAll job (checksumsJobs s)\<rparr>"

definition startUploadFile ::
  "Env \<Rightarrow> World \<Rightarrow> Propagator \<Rightarrow> SyncFileItem \<Rightarrow> UploadFileInfo \<Rightarrow> Stage" where
  "startUploadFile env w s item fileToUpload =
     (if abortRequested s then Returned s
      else if e_hasCaseClashAccessibilityProblem env (fu_file fileToUpload) then
        Returned (fst (doneItem env s item NormalError
          (''File '' @ e_toNativeSeparators env (it_file item)
             @ '' cannot be uploaded because another file with the same name, differing only in case, exists'')))
      else
        (let quotaGuess = (case folderQuota s (e_parentPath env (fu_file fileToUpload)) of
                             Some q \<Rightarrow> q | None \<Rightarrow> 9223372036854775807)
         in if fu_size fileToUpload > quotaGuess then
              Returned (fst (doneItem env (emit EvInsufficientRemoteStorage s)
                               (item\<lparr>it_httpErrorCode := 507\<rparr>) DetailError
                               (''Upload of '' @ e_octetsToString env (fu_size fileToUpload)
                                  @ '' exceeds the quota for the folder'')))
            else slotComputeContentChecksum env w s item fileToUpload))"




subsection \<open>Scheduling\<close>

text \<open>
  The functor \<^verbatim>\<open>scheduleSelfOrChild\<close> makes for an item: it builds the
  \<^verbatim>\<open>UploadFileInfo\<close> of the item and starts its upload.
\<close>

definition startItem :: "Env \<Rightarrow> World \<Rightarrow> Propagator \<Rightarrow> SyncFileItem \<Rightarrow> Stage" where
  "startItem env w s currentItem =
     startUploadFile env w s currentItem
       \<lparr>fu_file = it_file currentItem,
        fu_path = e_fullLocalPath env (it_file currentItem),
        fu_size = it_size currentItem\<rparr>"

text \<open>
  The state a call chain leaves to the job: when the chain ended in a started checksum
  job, the slot connected to that job is a call still to come.
\<close>

fun afterCall :: "Stage \<Rightarrow> Propagator" where
  "afterCall (Returned s) = s"
| "afterCall (AwaitContentChecksum s item fileToUpload job) =
     s\<lparr>pendingCalls := pendingCalls s @ [CallContentChecksum item fileToUpload job]\<rparr>"
| "afterCall (AwaitTransmissionChecksum s item fileToUpload ty) =
     s\<lparr>pendingCalls := pendingCalls s @ [CallTransmissionChecksum item fileToUpload ty]\<rparr>"

text \<open>
  \<^verbatim>\<open>QMetaObject::invokeMethod(this, functor)\<close> with the connection type left at
  \<^verbatim>\<open>Qt::AutoConnection\<close>: called in the thread of the job, the functor runs at once,
  before \<^verbatim>\<open>invokeMethod\<close> returns; called from another thread, it is handed to the
  event loop of the job and runs later.
\<close>

definition invokeMethod :: "Env \<Rightarrow> World \<Rightarrow> Propagator \<Rightarrow> SyncFileItem \<Rightarrow> Propagator" where
  "invokeMethod env w s currentItem =
     (if w_inJobThread w then afterCall (startItem env w s currentItem)
      else s\<lparr>pendingCalls := pendingCalls s @ [CallStartUpload currentItem]\<rparr>)"

text \<open>
  The loop of \<^verbatim>\<open>scheduleSelfOrChild\<close>, \<^verbatim>\<open>for (int i = 0; i < 100 && !_items.empty(); ++i)\<close>;
  the first argument counts the rounds that are left.
\<close>

fun scheduleLoop :: "nat \<Rightarrow> Env \<Rightarrow> World \<Rightarrow> Propagator \<Rightarrow> Propagator" where
  "scheduleLoop 0 env w s = s"
| "scheduleLoop (Suc n) env w s =
     (case items s of
        [] \<Rightarrow> s
      | currentItem # rest \<Rightarrow>
          scheduleLoop n env w (invokeMethod env w (s\<lparr>items := rest\<rparr>) currentItem))"

definition scheduleSelfOrChild :: "Env \<Rightarrow> World \<Rightarrow> Propagator \<Rightarrow> Propagator \<times> bool" where
  "scheduleSelfOrChild env w s =
     (if items s = [] then (s, False)
      else
        (let s1 = scheduleLoop 100 env w (s\<lparr>running := True\<rparr>)
         in (s1, items s1 = [] \<and> uploadFileParameters s1 = [])))"

text \<open>
  A call still to come is made, in the world of its moment: the functor of an item, or
  the slot of a checksum job with the checksum \<open>ck = (type, checksum)\<close> the job
  reports. \<open>runPending\<close> makes the first of the calls the job waits for.
\<close>

definition runCall :: "Env \<Rightarrow> World \<Rightarrow> string \<times> string \<Rightarrow> Propagator \<Rightarrow> Call \<Rightarrow> Stage" where
  "runCall env w ck s c =
     (case c of
        CallStartUpload currentItem \<Rightarrow> startItem env w s currentItem
      | CallContentChecksum item fileToUpload job \<Rightarrow>
          slotComputeTransmissionChecksum env w s item fileToUpload (fst ck) (snd ck)
      | CallTransmissionChecksum item fileToUpload ty \<Rightarrow>
          Returned (slotStartUpload env w s item fileToUpload (fst ck) (snd ck)))"

definition runPending :: "Env \<Rightarrow> World \<Rightarrow> string \<times> string \<Rightarrow> Propagator \<Rightarrow> Propagator" where
  "runPending env w ck s =
     (case pendingCalls s of
        [] \<Rightarrow> s
      | c # rest \<Rightarrow> afterCall (runCall env w ck (s\<lparr>pendingCalls := rest\<rparr>) c))"

definition slotJobDestroyed :: "nat \<Rightarrow> Propagator \<Rightarrow> Propagator" where
  "slotJobDestroyed job s = s\<lparr>jobs := removeAll job (jobs s)\<rparr>"

definition startPollJob ::
  "Env \<Rightarrow> World \<Rightarrow> Propagator \<Rightarrow> SyncFileItem \<Rightarrow> UploadFileInfo \<Rightarrow> string \<Rightarrow> Propagator" where
  "startPollJob env w s item fileToUpload path =
     (let job = nextJobId s;
          s1 = commit ''add poll info''
                 (emit (EvSetPollInfo (it_file item) path (it_modtime item) (it_size item)) s);
          s2 = emit (EvStartPollJob job path) (s1\<lparr>jobs := jobs s1 @ [job], nextJobId := Suc job\<rparr>)
      in if items s2 \<noteq> [] then fst (scheduleSelfOrChild env w s2) else s2)"

subsection \<open>The finalizer\<close>

text \<open>One round of the loop of \<^verbatim>\<open>finalize\<close>.\<close>

definition finalizeOne ::
  "Env \<Rightarrow> World \<Rightarrow> Propagator \<Rightarrow> UploadFileParameters
     \<Rightarrow> Propagator \<times> UploadFileParameters \<times> bool" where
  "finalizeOne env w s oneFile =
     (let item = up_item oneFile;
          path = e_parentPath env (it_file item);
          s1 = (case folderQuota s path of
                  Some q \<Rightarrow> s\<lparr>folderQuota := (folderQuota s)(path \<mapsto> q - fu_size (up_fileToUpload oneFile))\<rparr>
                | None \<Rightarrow> s);
          s2 = emit (EvUpdateMetadata (it_file item)) s1
      in case w_updateMetadata w item of
           MetaError e \<Rightarrow>
             (let (s3, item1) = doneItem env s2 item FatalError (''Error updating metadata: '' @ e)
              in (s3, oneFile\<lparr>up_item := item1\<rparr>, False))
         | MetaLocked \<Rightarrow>
             (let (s3, item1) = doneItem env s2 item SoftError
                                  (''The file '' @ it_file item @ '' is currently in use'')
              in (s3, oneFile\<lparr>up_item := item1\<rparr>, False))
         | MetaOk \<Rightarrow>
             (let s3 = (if (it_instruction item = CSYNC_INSTRUCTION_NEW
                              \<or> it_instruction item = CSYNC_INSTRUCTION_TYPE_CHANGE)
                            \<and> w_pinState w (it_file item) = Some OnlineOnly
                        then emit (EvSetPinState (it_file item) Unspecified
                                     (w_setPinState w (it_file item) Unspecified)) s2
                        else s2);
                  s4 = commit ''upload file start'' (setUploadInfo (it_file item) UploadInfo_default s3);
                  (s5, item1) = doneItem env s4 item Success []
              in (s5, oneFile\<lparr>up_item := item1\<rparr>, True)))"

definition finalize :: "Env \<Rightarrow> World \<Rightarrow> Propagator \<Rightarrow> Propagator" where
  "finalize env w s =
     (case forEachFile (finalizeOne env w) s (uploadFileParameters s) of
        (s1, files, ok) \<Rightarrow>
          (let s2 = s1\<lparr>uploadFileParameters := files\<rparr>
           in if \<not> ok then s2
              else if items s2 = [] then
                (if jobs s2 \<noteq> [] then s2
                 else if checksumsJobs s2 \<noteq> [] then s2
                 else emit EvScheduleNextJob (emit (EvFinished (finalStatus s2)) s2))
              else fst (scheduleSelfOrChild env w s2)))"

subsection \<open>The reply of the bulk PUT\<close>

fun findReply :: "JsonObject list \<Rightarrow> string \<Rightarrow> JsonObject" where
  "findReply [] f = Map.empty"
| "findReply (replyObject # rest) f =
     (if replyValue replyObject ''X-File-Path'' = f then replyObject else findReply rest f)"

text \<open>
  How a round of the loop of \<^verbatim>\<open>slotPutFinished\<close> ends: the loop goes on; the function
  returns; or the function starts the poll job of the round's item and returns.
\<close>

datatype Round = Continue | Return | PollAndReturn SyncFileItem UploadFileInfo string

text \<open>
  One round of the loop of \<^verbatim>\<open>slotPutFinished\<close>. \<open>job\<close> is the finished job as the
  round finds it: \<open>rp_replyArray\<close> is the array in the bytes of the reply that are still
  unread. \<^verbatim>\<open>startPollJob\<close> may start uploads, which add to the batch, so the round
  leaves the call to \<open>slotPutFinished\<close>, which makes it when the entries are stored
  back; the source returns right after the call.
\<close>

definition putFinishedOne ::
  "Env \<Rightarrow> World \<Rightarrow> PutReply \<Rightarrow> Propagator \<Rightarrow> UploadFileParameters
     \<Rightarrow> Propagator \<times> UploadFileParameters \<times> Round" where
  "putFinishedOne env w job s oneFile =
     (let s0 = slotJobDestroyed (rp_jobId job) s;
          item = (up_item oneFile)
                   \<lparr>it_httpErrorCode := rp_httpStatus job mod 65536,
                    it_responseTimeStamp := rp_responseTimestamp job,
                    it_requestId := rp_requestId job\<rparr>
      in if rp_error job \<noteq> NoError then
           (let (s1, item1) = commonErrorHandling env s0 item (up_fileToUpload oneFile) job
            in (s1, oneFile\<lparr>up_item := item1\<rparr>, Return))
         else
           (let fileReply = findReply (rp_replyArray job) (it_file item)
            in if it_httpErrorCode item = 202 then
                 (let path = getHeaderFromJsonReply fileReply ''OC-JobStatus-Location''
                  in if path = [] then
                       (let (s1, item1) = doneItem env s0 item NormalError ''Poll URL missing''
                        in (s1, oneFile\<lparr>up_item := item1\<rparr>, Return))
                     else
                       (s0, oneFile\<lparr>up_item := item\<rparr>,
                        PollAndReturn item (up_fileToUpload oneFile) path))
               else
                 (let etag = getEtagFromJsonReply env fileReply;
                      finished = (etag \<noteq> []);
                      fullFilePath = e_fullLocalPath env (it_file item);
                      (s1, item1, ok1) = checkFileStillExists env w s0 item finished fullFilePath
                  in if \<not> ok1 then (s1, oneFile\<lparr>up_item := item1\<rparr>, Return)
                     else
                       (let (s2, item2, ok2) = checkFileChanged env w s1 item1 finished fullFilePath
                        in if \<not> ok2 then (s2, oneFile\<lparr>up_item := item2\<rparr>, Return)
                           else
                             (let (s3, item3) = computeFileId s2 item2 fileReply
                              in (s3, oneFile\<lparr>up_item := item3\<lparr>it_etag := etag\<rparr>\<rparr>, Continue))))))"

text \<open>
  The loop of \<^verbatim>\<open>slotPutFinished\<close>. Each round reads all the bytes the reply has
  (\<^verbatim>\<open>while (job->reply()->bytesAvailable()) replyData += job->reply()->readAll()\<close>), so
  a round that goes on leaves nothing to read: the rounds after it find an empty
  document, and with it an empty array. The last component is \<open>Continue\<close> when the loop
  ran to its end.
\<close>

fun forEachReply ::
  "Env \<Rightarrow> World \<Rightarrow> PutReply \<Rightarrow> Propagator \<Rightarrow> UploadFileParameters list
     \<Rightarrow> Propagator \<times> UploadFileParameters list \<times> Round" where
  "forEachReply env w job s [] = (s, [], Continue)"
| "forEachReply env w job s (oneFile # rest) =
     (case putFinishedOne env w job s oneFile of
        (s1, oneFile1, r) \<Rightarrow>
          (case r of
             Continue \<Rightarrow>
               (case forEachReply env w (job\<lparr>rp_replyArray := []\<rparr>) s1 rest of
                  (s2, rest1, r2) \<Rightarrow> (s2, oneFile1 # rest1, r2))
           | _ \<Rightarrow> (s1, oneFile1 # rest, r)))"

definition slotPutFinished :: "Env \<Rightarrow> World \<Rightarrow> Propagator \<Rightarrow> PutReply \<Rightarrow> Propagator" where
  "slotPutFinished env w s job =
     (case forEachReply env w job s (uploadFileParameters s) of
        (s1, files, r) \<Rightarrow>
          (let s2 = s1\<lparr>uploadFileParameters := files\<rparr>
           in case r of
                Continue \<Rightarrow> finalize env w s2
              | Return \<Rightarrow> s2
              | PollAndReturn item fileToUpload path \<Rightarrow>
                  startPollJob env w s2 item fileToUpload path))"

definition slotPollFinished :: "Env \<Rightarrow> World \<Rightarrow> Propagator \<Rightarrow> nat \<Rightarrow> SyncFileItem \<Rightarrow> Propagator" where
  "slotPollFinished env w s job item =
     (let s0 = slotJobDestroyed job s
      in if it_status item \<noteq> Success
         then fst (doneItem env s0 item (it_status item) (it_errorString item))
         else finalize env w s0)"

subsection \<open>Reading the trace\<close>

fun completedItems :: "Event list \<Rightarrow> SyncFileItem list" where
  "completedItems [] = []"
| "completedItems (EvItemCompleted i # es) = i # completedItems es"
| "completedItems (e # es) = completedItems es"

text \<open>The events a call appended: the trace after it without the trace before it.\<close>

definition newEvents :: "Propagator \<Rightarrow> Propagator \<Rightarrow> Event list" where
  "newEvents s s' = drop (length (trace s)) (trace s')"

text \<open>A run of completions, each through \<^verbatim>\<open>done\<close>, in the order given.\<close>

fun completeAll :: "Env \<Rightarrow> Propagator \<Rightarrow> (SyncFileItem \<times> Status \<times> string) list \<Rightarrow> Propagator" where
  "completeAll env s [] = s"
| "completeAll env s ((item, status, errorString) # rest) =
     completeAll env (fst (doneItem env s item status errorString)) rest"

text \<open>
  The mapping of the specification's error policy, in its words: ten statuses give
  \<open>NormalError\<close>, \<open>DetailError\<close> gives \<open>DetailError\<close>, \<open>Success\<close> gives nothing.
\<close>

fun mappedStatus :: "Status \<Rightarrow> Status option" where
  "mappedStatus Success = None"
| "mappedStatus DetailError = Some DetailError"
| "mappedStatus st = Some NormalError"

text \<open>The final status a list of observed statuses leaves: the last one that maps wins.\<close>

fun lastMapped :: "Status \<Rightarrow> Status list \<Rightarrow> Status" where
  "lastMapped fs [] = fs"
| "lastMapped fs (st # sts) =
     lastMapped (case mappedStatus st of None \<Rightarrow> fs | Some m \<Rightarrow> m) sts"

text \<open>The item a completion hands to the blacklist: \<^verbatim>\<open>done\<close> up to its call of \<^verbatim>\<open>handleBlackList\<close>.\<close>

definition beforeBlacklist :: "Propagator \<Rightarrow> SyncFileItem \<Rightarrow> Status \<Rightarrow> string \<Rightarrow> SyncFileItem" where
  "beforeBlacklist s item status errorString =
     (let item2 = handleFileRestoration
                    (item\<lparr>it_status := status, it_errorString := errorString\<rparr>) errorString
      in if abortRequested s \<and> (it_status item2 = NormalError \<or> it_status item2 = FatalError)
         then item2\<lparr>it_status := SoftError\<rparr> else item2)"

text \<open>The events \<^verbatim>\<open>done\<close> appends before the completion signal.\<close>

fun isBookkeeping :: "Event \<Rightarrow> bool" where
  "isBookkeeping (EvBlacklistUpdate i) = True"
| "isBookkeeping (EvWipeErrorBlacklistEntry f) = True"
| "isBookkeeping EvPropagatorAbort = True"
| "isBookkeeping e = False"

subsection \<open>A small installation for examples\<close>

definition exampleEnv :: Env where
  "exampleEnv =
     \<lparr>e_fullLocalPath = (\<lambda>f. ''/sync/'' @ f),
      e_fullRemotePath = (\<lambda>f. ''/dav/'' @ f),
      e_parentPath = (\<lambda>f. ''.''),
      e_hasCaseClashAccessibilityProblem = (\<lambda>f. False),
      e_supportedChecksumTypes = [''MD5''],
      e_uploadChecksumEnabled = True,
      e_resetCodes = [],
      e_minimumFileAgeForUpload = 2000,
      e_lazyOps = 0,
      e_conflictRecord = (\<lambda>f. \<lparr>cr_valid = False, cr_initialBasePath = [], cr_baseFileId = [],
                                 cr_baseModtime = - 1, cr_baseEtag = []\<rparr>),
      e_octetsToString = numberStr,
      e_toNativeSeparators = (\<lambda>f. f),
      e_parseEtag = (\<lambda>t. t),
      e_parseChecksumHeader = (\<lambda>h. (takeWhile (\<lambda>c. c \<noteq> CHR '':'') h,
                                      drop 1 (dropWhile (\<lambda>c. c \<noteq> CHR '':'') h))),
      e_makeChecksumHeader = (\<lambda>t c. if c = [] then [] else t @ '':'' @ c),
      e_blacklistUpdate = (\<lambda>i. i),
      e_classifyError = (\<lambda>err code another body.
                           (if code = 412 then SoftError else NormalError, another))\<rparr>"

definition exampleWorld :: World where
  "exampleWorld =
     \<lparr>w_fileExists = (\<lambda>p. True),
      w_getModTime = (\<lambda>p. 1000),
      w_getSize = (\<lambda>p. 100),
      w_rename = (\<lambda>a b. True),
      w_verifyFileUnchanged = (\<lambda>p sz mt. True),
      w_isFileLocked = (\<lambda>p. False),
      w_deviceOpen = (\<lambda>p. None),
      w_currentMSecs = 5000000,
      w_updateMetadata = (\<lambda>i. MetaOk),
      w_pinState = (\<lambda>f. None),
      w_setPinState = (\<lambda>f p. True),
      w_inJobThread = True\<rparr>"

definition exampleItem :: SyncFileItem where
  "exampleItem =
     \<lparr>it_file = ''a.txt'', it_renameTarget = [], it_originalFile = ''a.txt'',
      it_size = 100, it_modtime = 1000, it_etag = ''abc'', it_fileId = [],
      it_checksumHeader = ''MD5:0f'', it_status = NoStatus, it_errorString = [],
      it_httpErrorCode = 0, it_instruction = CSYNC_INSTRUCTION_OTHER,
      it_hasBlacklistEntry = False, it_isRestoration = False,
      it_responseTimeStamp = [], it_requestId = []\<rparr>"

definition exampleJob :: Propagator where
  "exampleJob =
     \<lparr>abortRequested = False, anotherSyncNeeded = False, folderQuota = Map.empty,
      uploadInfo = Map.empty, finalStatus = NoStatus, running = False, items = [],
      pendingCalls = [], uploadFileParameters = [], jobs = [], checksumsJobs = [],
      nextJobId = 0, trace = []\<rparr>"

definition exampleFile :: "SyncFileItem \<Rightarrow> UploadFileInfo" where
  "exampleFile item =
     \<lparr>fu_file = it_file item, fu_path = e_fullLocalPath exampleEnv (it_file item),
      fu_size = it_size item\<rparr>"

definition exampleEntry :: "SyncFileItem \<Rightarrow> UploadFileParameters" where
  "exampleEntry item =
     \<lparr>up_item = item, up_fileToUpload = exampleFile item,
      up_remotePath = e_fullRemotePath exampleEnv (it_file item),
      up_localPath = e_fullLocalPath exampleEnv (it_file item),
      up_fileSize = it_size item, up_headers = Map.empty\<rparr>"

text \<open>The entries the loop of \<^verbatim>\<open>finalize\<close> reaches: up to and with the first whose metadata update fails.\<close>

fun reached :: "World \<Rightarrow> UploadFileParameters list \<Rightarrow> UploadFileParameters list" where
  "reached w [] = []"
| "reached w (f # fs) = f # (if w_updateMetadata w (up_item f) = MetaOk then reached w fs else [])"

definition sizesUnder :: "Env \<Rightarrow> string \<Rightarrow> UploadFileParameters list \<Rightarrow> int" where
  "sizesUnder env p fs =
     sum_list (map (\<lambda>f. fu_size (up_fileToUpload f))
                 (filter (\<lambda>f. e_parentPath env (it_file (up_item f)) = p) fs))"

text \<open>The state in which \<^verbatim>\<open>finalize\<close> asks for the metadata update of an entry: its quota is taken already.\<close>

definition quotaTaken :: "Env \<Rightarrow> Propagator \<Rightarrow> UploadFileParameters \<Rightarrow> Propagator" where
  "quotaTaken env s f =
     (let path = e_parentPath env (it_file (up_item f))
      in emit (EvUpdateMetadata (it_file (up_item f)))
           (case folderQuota s path of
              Some q \<Rightarrow> s\<lparr>folderQuota := (folderQuota s)(path \<mapsto> q - fu_size (up_fileToUpload f))\<rparr>
            | None \<Rightarrow> s))"

text \<open>A world in which the metadata update of \<open>b.txt\<close> fails, and a batch of three files under one folder.\<close>

definition failingWorld :: World where
  "failingWorld = exampleWorld\<lparr>w_updateMetadata :=
      (\<lambda>i. if it_file i = ''b.txt'' then MetaError ''db'' else MetaOk)\<rparr>"

definition exampleBatch :: Propagator where
  "exampleBatch = exampleJob\<lparr>folderQuota := [''.'' \<mapsto> 1000],
      uploadFileParameters :=
        [exampleEntry exampleItem, exampleEntry (exampleItem\<lparr>it_file := ''b.txt''\<rparr>),
         exampleEntry (exampleItem\<lparr>it_file := ''c.txt''\<rparr>)]\<rparr>"

text \<open>The item as \<^verbatim>\<open>slotStartUpload\<close> has it when it asks whether the file is still changing.\<close>

definition checkedItem :: "Env \<Rightarrow> World \<Rightarrow> SyncFileItem \<Rightarrow> string \<Rightarrow> string \<Rightarrow> SyncFileItem" where
  "checkedItem env w item ty ck =
     (if it_checksumHeader item = []
      then item\<lparr>it_checksumHeader := e_makeChecksumHeader env ty ck\<rparr> else item)
       \<lparr>it_modtime := w_getModTime w (e_fullLocalPath env (it_file item)),
        it_size := w_getSize w (e_fullLocalPath env (it_file item))\<rparr>"

text \<open>A world whose clock stands ten seconds before the modification time of the example file.\<close>

definition tenSecondsAhead :: World where
  "tenSecondsAhead = exampleWorld\<lparr>w_currentMSecs := 990000\<rparr>"

text \<open>The item of an entry with what \<^verbatim>\<open>slotPutFinished\<close> records from the reply.\<close>

definition repliedItem :: "PutReply \<Rightarrow> SyncFileItem \<Rightarrow> SyncFileItem" where
  "repliedItem job item =
     item\<lparr>it_httpErrorCode := rp_httpStatus job mod 65536,
          it_responseTimeStamp := rp_responseTimestamp job,
          it_requestId := rp_requestId job\<rparr>"

text \<open>The state in which \<^verbatim>\<open>commonErrorHandling\<close> calls \<^verbatim>\<open>abortWithError\<close>, and the status and message it passes.\<close>

definition beforeAbort ::
  "Env \<Rightarrow> Propagator \<Rightarrow> SyncFileItem \<Rightarrow> UploadFileInfo \<Rightarrow> PutReply \<Rightarrow> Propagator \<times> Status \<times> string" where
  "beforeAbort env s item fileToUpload job =
     (let s1 = (if it_httpErrorCode item = 412
                then (emit (EvSchedulePathForRemoteDiscovery (it_file item)) s)\<lparr>anotherSyncNeeded := True\<rparr>
                else s);
          s2 = checkResettingErrors env s1 item;
          (status, another) =
             e_classifyError env (rp_error job) (it_httpErrorCode item) (anotherSyncNeeded s2)
               (rp_replyContent job);
          s3 = s2\<lparr>anotherSyncNeeded := another\<rparr>
      in if it_httpErrorCode item = 507 then
           (let path = e_parentPath env (it_file item);
                quota = (case folderQuota s3 path of
                           Some q \<Rightarrow> min q (fu_size fileToUpload - 1)
                         | None \<Rightarrow> fu_size fileToUpload - 1)
            in (emit EvInsufficientRemoteStorage (s3\<lparr>folderQuota := (folderQuota s3)(path \<mapsto> quota)\<rparr>),
                DetailError,
                ''Upload of '' @ e_octetsToString env (fu_size fileToUpload)
                   @ '' exceeds the quota for the folder''))
         else (s3, status, rp_errorString job))"

text \<open>A reply of a PUT that failed in the network, and a batch of two files whose PUT job runs.\<close>

definition failedReply :: "nat \<Rightarrow> PutReply" where
  "failedReply code =
     \<lparr>rp_jobId = 0, rp_httpStatus = code, rp_responseTimestamp = [], rp_requestId = ''r1'',
      rp_error = NetError 1, rp_replyArray = [], rp_errorString = ''refused'',
      rp_replyContent = []\<rparr>"

definition twoFiles :: Propagator where
  "twoFiles = exampleJob\<lparr>jobs := [0], nextJobId := 1,
      uploadFileParameters :=
        [exampleEntry exampleItem, exampleEntry (exampleItem\<lparr>it_file := ''b.txt''\<rparr>)]\<rparr>"

text \<open>
  A later sync run: a new job, with nothing in flight, over the journal and the quota
  cache the earlier run left.
\<close>

definition nextSync :: "Propagator \<Rightarrow> Propagator" where
  "nextSync s =
     s\<lparr>abortRequested := False, finalStatus := NoStatus, running := False, items := [],
       pendingCalls := [], uploadFileParameters := [], jobs := [], checksumsJobs := []\<rparr>"

text \<open>
  One more attempt to upload the example file in a later sync run: the upload is started
  and its PUT is answered with 412.
\<close>

definition failedAttempt :: "Propagator \<Rightarrow> Propagator" where
  "failedAttempt s =
     slotPutFinished exampleEnv exampleWorld
       (doStartUpload exampleEnv exampleWorld (nextSync s) exampleItem (exampleFile exampleItem) ''0f'')
       ((failedReply 412)\<lparr>rp_jobId := nextJobId s\<rparr>)"

text \<open>A journal that holds the upload record of the example file as an upload start writes it.\<close>

definition countedJournal :: Propagator where
  "countedJournal = exampleJob\<lparr>uploadInfo :=
      [''a.txt'' \<mapsto> \<lparr>ui_valid = True, ui_chunk = 0, ui_transferid = 0, ui_modtime = 1000,
                       ui_errorCount = 0, ui_contentChecksum = ''MD5:0f'', ui_size = 100\<rparr>]\<rparr>"















text \<open>
  A job with the abort flag set, a file that has a blacklist entry, and two blacklist
  updates that write the status of the item they are handed: one that suppresses the
  error of a file with a blacklist entry (status \<open>BlacklistedError\<close>), and one that
  hands the item back with \<open>FatalError\<close>.
\<close>

definition abortedJob :: Propagator where
  "abortedJob = exampleJob\<lparr>abortRequested := True\<rparr>"

definition listedItem :: SyncFileItem where
  "listedItem = exampleItem\<lparr>it_hasBlacklistEntry := True\<rparr>"

definition suppressingEnv :: Env where
  "suppressingEnv = exampleEnv\<lparr>e_blacklistUpdate :=
      (\<lambda>i. if it_hasBlacklistEntry i then i\<lparr>it_status := BlacklistedError\<rparr> else i)\<rparr>"

definition escalatingEnv :: Env where
  "escalatingEnv = exampleEnv\<lparr>e_blacklistUpdate := (\<lambda>i. i\<lparr>it_status := FatalError\<rparr>)\<rparr>"


section \<open>Properties\<close>

lemmas example_defs = exampleEnv_def exampleWorld_def exampleItem_def exampleJob_def
  exampleFile_def exampleEntry_def

lemmas done_defs = doneItem_def handleFileRestoration_def handleBlackList_def
  handleJobDoneErrors_def propagatorAbort_def emit_def newEvents_def

subsection \<open>What a completion changes\<close>

lemma handleBlackList_fields:
  "abortRequested (fst (handleBlackList env s item)) = abortRequested s"
  "anotherSyncNeeded (fst (handleBlackList env s item)) = anotherSyncNeeded s"
  "folderQuota (fst (handleBlackList env s item)) = folderQuota s"
  "uploadInfo (fst (handleBlackList env s item)) = uploadInfo s"
  "finalStatus (fst (handleBlackList env s item)) = finalStatus s"
  "uploadFileParameters (fst (handleBlackList env s item)) = uploadFileParameters s"
  "jobs (fst (handleBlackList env s item)) = jobs s"
  "items (fst (handleBlackList env s item)) = items s"
  "pendingCalls (fst (handleBlackList env s item)) = pendingCalls s"
  "running (fst (handleBlackList env s item)) = running s"
  "checksumsJobs (fst (handleBlackList env s item)) = checksumsJobs s"
  "nextJobId (fst (handleBlackList env s item)) = nextJobId s"
  by (simp_all add: handleBlackList_def emit_def Let_def)

lemma handleJobDoneErrors_fields:
  "anotherSyncNeeded (handleJobDoneErrors s item st) = anotherSyncNeeded s"
  "folderQuota (handleJobDoneErrors s item st) = folderQuota s"
  "uploadInfo (handleJobDoneErrors s item st) = uploadInfo s"
  "uploadFileParameters (handleJobDoneErrors s item st) = uploadFileParameters s"
  "jobs (handleJobDoneErrors s item st) = jobs s"
  "items (handleJobDoneErrors s item st) = items s"
  "pendingCalls (handleJobDoneErrors s item st) = pendingCalls s"
  "running (handleJobDoneErrors s item st) = running s"
  "checksumsJobs (handleJobDoneErrors s item st) = checksumsJobs s"
  "nextJobId (handleJobDoneErrors s item st) = nextJobId s"
  by (cases "it_status item"; simp add: handleJobDoneErrors_def propagatorAbort_def emit_def)+

lemma doneItem_fields:
  "anotherSyncNeeded (fst (doneItem env s item st err)) = anotherSyncNeeded s"
  "folderQuota (fst (doneItem env s item st err)) = folderQuota s"
  "uploadInfo (fst (doneItem env s item st err)) = uploadInfo s"
  "uploadFileParameters (fst (doneItem env s item st err)) = uploadFileParameters s"
  "jobs (fst (doneItem env s item st err)) = jobs s"
  "items (fst (doneItem env s item st err)) = items s"
  "pendingCalls (fst (doneItem env s item st err)) = pendingCalls s"
  "running (fst (doneItem env s item st err)) = running s"
  "checksumsJobs (fst (doneItem env s item st err)) = checksumsJobs s"
  "nextJobId (fst (doneItem env s item st err)) = nextJobId s"
  by (simp_all add: doneItem_def Let_def split_beta emit_def handleJobDoneErrors_fields handleBlackList_fields)

lemma abortWithError_fields:
  "uploadFileParameters (fst (abortWithError env s item st err)) = uploadFileParameters s"
  "uploadInfo (fst (abortWithError env s item st err)) = uploadInfo s"
  "folderQuota (fst (abortWithError env s item st err)) = folderQuota s"
  "jobs (fst (abortWithError env s item st err)) = jobs s"
  "anotherSyncNeeded (fst (abortWithError env s item st err)) = anotherSyncNeeded s"
  by (simp_all add: abortWithError_def doneItem_fields emit_def)

lemma completedItems_append:
  "completedItems (xs @ ys) = completedItems xs @ completedItems ys"
  by (induction xs rule: completedItems.induct) simp_all

lemma completedItems_bookkeeping:
  "list_all isBookkeeping evs \<Longrightarrow> completedItems evs = []"
  by (induction evs rule: completedItems.induct) simp_all

lemma handleBlackList_trace:
  "\<exists>evs. trace (fst (handleBlackList env s item)) = trace s @ evs \<and> list_all isBookkeeping evs
     \<and> EvPropagatorAbort \<notin> set evs"
  by (simp add: handleBlackList_def emit_def Let_def)

lemma handleJobDoneErrors_trace:
  "trace (handleJobDoneErrors s item st) =
     trace s @ (if it_status item = FatalError then [EvPropagatorAbort] else [])"
  by (cases "it_status item"; simp add: handleJobDoneErrors_def propagatorAbort_def emit_def)

lemma handleJobDoneErrors_finalStatus:
  "finalStatus (handleJobDoneErrors s item st) =
     (case mappedStatus (it_status item) of None \<Rightarrow> finalStatus s | Some m \<Rightarrow> m)"
  by (cases "it_status item"; simp add: handleJobDoneErrors_def propagatorAbort_def emit_def)

lemma doneItem_eq:
  "doneItem env s item st err =
     (emit (EvItemCompleted (snd (handleBlackList env s (beforeBlacklist s item st err))))
        (handleJobDoneErrors (fst (handleBlackList env s (beforeBlacklist s item st err)))
           (snd (handleBlackList env s (beforeBlacklist s item st err))) st),
      snd (handleBlackList env s (beforeBlacklist s item st err)))"
  by (simp add: doneItem_def beforeBlacklist_def Let_def split_beta)

lemma doneItem_trace:
  "\<exists>evs. trace (fst (doneItem env s item st err)) =
            trace s @ evs @ [EvItemCompleted (snd (doneItem env s item st err))]
         \<and> list_all isBookkeeping evs"
proof -
  define i3 where "i3 = beforeBlacklist s item st err"
  obtain evs where e: "trace (fst (handleBlackList env s i3)) = trace s @ evs"
    "list_all isBookkeeping evs"
    using handleBlackList_trace by blast
  have "trace (fst (doneItem env s item st err)) =
          trace s @ (evs @ (if it_status (snd (handleBlackList env s i3)) = FatalError
                            then [EvPropagatorAbort] else []))
            @ [EvItemCompleted (snd (doneItem env s item st err))]"
    using e(1) by (simp add: doneItem_eq i3_def [symmetric] emit_def handleJobDoneErrors_trace)
  moreover have "list_all isBookkeeping (evs @ (if it_status (snd (handleBlackList env s i3)) = FatalError
                            then [EvPropagatorAbort] else []))"
    using e(2) by simp
  ultimately show ?thesis by blast
qed

lemma doneItem_finalStatus:
  "finalStatus (fst (doneItem env s item st err)) =
     lastMapped (finalStatus s) [it_status (snd (doneItem env s item st err))]"
  by (simp add: doneItem_eq emit_def handleJobDoneErrors_finalStatus handleBlackList_fields
        split: option.split)

lemma completeAll_trace: "\<exists>evs. trace (completeAll env s cs) = trace s @ evs"
proof (induction cs arbitrary: s)
  case Nil
  then show ?case by simp
next
  case (Cons c cs)
  obtain item st err where c: "c = (item, st, err)" by (cases c) auto
  obtain e1 where e1: "trace (fst (doneItem env s item st err)) = trace s @ e1"
    using doneItem_trace by blast
  obtain e2 where "trace (completeAll env (fst (doneItem env s item st err)) cs) = trace (fst (doneItem env s item st err)) @ e2"
    using Cons.IH by blast
  with e1 c show ?case by simp
qed

lemma newEvents_append: "trace s' = trace s @ evs \<Longrightarrow> newEvents s s' = evs"
  by (simp add: newEvents_def)


lemma doneItem_abortRequested:
  "abortRequested (fst (doneItem env s item st err)) =
     (abortRequested s \<or> it_status (snd (doneItem env s item st err)) = FatalError)"
  by (cases "it_status (snd (handleBlackList env s (beforeBlacklist s item st err)))";
      simp add: doneItem_eq emit_def handleJobDoneErrors_def propagatorAbort_def handleBlackList_fields)

subsection \<open>The final status of the job\<close>

text \<open>
  C5, as the code has it. After any run of completions the job's final status is decided
  by the last completed item whose status is not \<open>Success\<close>: \<open>DetailError\<close> if that
  status is \<open>DetailError\<close>, \<open>NormalError\<close> if it is one of the ten other statuses, and
  the status the job had before when every item completed with \<open>Success\<close>. The statuses
  are those of the items as the completion signal carries them. A later \<open>NormalError\<close>
  replaces an earlier \<open>DetailError\<close> and the other way round; \<open>Success\<close> changes nothing.
\<close>

theorem finalStatus_last_writer:
  "finalStatus (completeAll env s cs) =
     lastMapped (finalStatus s)
       (map it_status (completedItems (newEvents s (completeAll env s cs))))"
proof (induction cs arbitrary: s)
  case Nil
  then show ?case by (simp add: newEvents_def)
next
  case (Cons c cs)
  obtain item st err where c: "c = (item, st, err)" by (cases c) auto
  define s1 where "s1 = fst (doneItem env s item st err)"
  define i1 where "i1 = snd (doneItem env s item st err)"
  obtain e1 where e1: "trace s1 = trace s @ e1 @ [EvItemCompleted i1]" "list_all isBookkeeping e1"
    using doneItem_trace [of env s item st err] by (auto simp: s1_def i1_def)
  obtain e2 where e2: "trace (completeAll env s1 cs) = trace s1 @ e2"
    using completeAll_trace by blast
  have n1: "newEvents s1 (completeAll env s1 cs) = e2"
    using e2 by (rule newEvents_append)
  have n: "newEvents s (completeAll env s1 cs) = (e1 @ [EvItemCompleted i1]) @ e2"
    using e1 e2 by (intro newEvents_append) simp
  have f1: "finalStatus s1 = lastMapped (finalStatus s) [it_status i1]"
    unfolding s1_def i1_def by (rule doneItem_finalStatus)
  have "finalStatus (completeAll env s1 cs) = lastMapped (finalStatus s1) (map it_status (completedItems e2))"
    using Cons.IH [of s1] n1 by simp
  then show ?case
    using c n f1 e1(2)
    by (simp add: s1_def [symmetric] completedItems_append completedItems_bookkeeping)
qed

theorem finalStatus_last_writer_witness:
  "finalStatus (completeAll exampleEnv exampleJob
       [(exampleItem, DetailError, ''quota''), (exampleItem, Success, [])]) = DetailError"
  using finalStatus_last_writer [of exampleEnv exampleJob
       "[(exampleItem, DetailError, ''quota''), (exampleItem, Success, [])]"]
  by (simp add: example_defs done_defs Let_def)

text \<open>
  C5 as stated fails. Two runs complete the same two items with the same two statuses,
  \<open>DetailError\<close> and \<open>NormalError\<close>, in opposite orders. The statuses observed are the
  same set, so a most severe status observed would be the same for both; the final
  statuses differ, each being the one mapped last.
\<close>

theorem finalStatus_most_severe_counterexample:
  "finalStatus (completeAll exampleEnv exampleJob
       [(exampleItem, DetailError, ''quota''), (exampleItem, NormalError, ''clash'')]) = NormalError
   \<and> finalStatus (completeAll exampleEnv exampleJob
       [(exampleItem, NormalError, ''clash''), (exampleItem, DetailError, ''quota'')]) = DetailError
   \<and> set (map it_status (completedItems (trace (completeAll exampleEnv exampleJob
       [(exampleItem, DetailError, ''quota''), (exampleItem, NormalError, ''clash'')]))))
     = set (map it_status (completedItems (trace (completeAll exampleEnv exampleJob
       [(exampleItem, NormalError, ''clash''), (exampleItem, DetailError, ''quota'')]))))"
  by (simp add: example_defs done_defs Let_def insert_commute)

subsection \<open>The If-Match header\<close>

lemma conflictHeaders_If_Match: "conflictHeaders cr h ''If-Match'' = h ''If-Match''"
  unfolding conflictHeaders_def Let_def by simp

text \<open>
  C7. The headers assembled for an item hold an \<open>If-Match\<close> entry exactly when the
  item's etag is not empty, is not \<open>empty_etag\<close>, and the instruction is neither
  \<open>NEW\<close> nor \<open>TYPE_CHANGE\<close>; the entry is then the etag between two double quotes.
\<close>

theorem headers_If_Match:
  "headers env item ''If-Match'' =
     (if it_etag item \<noteq> [] \<and> it_etag item \<noteq> ''empty_etag''
         \<and> it_instruction item \<noteq> CSYNC_INSTRUCTION_NEW
         \<and> it_instruction item \<noteq> CSYNC_INSTRUCTION_TYPE_CHANGE
      then Some (CHR 0x22 # it_etag item @ [CHR 0x22]) else None)"
  unfolding headers_def Let_def by (simp add: conflictHeaders_If_Match)

theorem headers_If_Match_witness:
  "headers exampleEnv exampleItem ''If-Match'' = Some [CHR 0x22, CHR ''a'', CHR ''b'', CHR ''c'', CHR 0x22]
   \<and> headers exampleEnv (exampleItem\<lparr>it_instruction := CSYNC_INSTRUCTION_NEW\<rparr>) ''If-Match'' = None
   \<and> headers exampleEnv (exampleItem\<lparr>it_etag := ''empty_etag''\<rparr>) ''If-Match'' = None
   \<and> headers exampleEnv (exampleItem\<lparr>it_etag := []\<rparr>) ''If-Match'' = None"
  using headers_If_Match [of exampleEnv exampleItem]
    headers_If_Match [of exampleEnv "exampleItem\<lparr>it_instruction := CSYNC_INSTRUCTION_NEW\<rparr>"]
    headers_If_Match [of exampleEnv "exampleItem\<lparr>it_etag := ''empty_etag''\<rparr>"]
    headers_If_Match [of exampleEnv "exampleItem\<lparr>it_etag := []\<rparr>"]
  by (simp add: exampleItem_def)

subsection \<open>The file id\<close>

text \<open>
  C10. \<^verbatim>\<open>computeFileId\<close> leaves the item and the state as they are when the reply has
  no \<open>OC-FileID\<close> or an empty one; whenever it changes the item, the reply holds a
  non-empty \<open>OC-FileID\<close> string; and such a string replaces the file id, whatever it
  was, with the warning exactly when a file id was known and differs.
\<close>

theorem computeFileId_frame:
  "((fileReply ''OC-FileID'' = None \<or> fileReply ''OC-FileID'' = Some (JString []))
      \<longrightarrow> computeFileId s item fileReply = (s, item))
   \<and> (snd (computeFileId s item fileReply) \<noteq> item
      \<longrightarrow> (\<exists>fid. fid \<noteq> [] \<and> fileReply ''OC-FileID'' = Some (JString fid)))
   \<and> (fileReply ''OC-FileID'' = Some (JString fid) \<and> fid \<noteq> []
      \<longrightarrow> computeFileId s item fileReply =
           ((if it_fileId item \<noteq> [] \<and> it_fileId item \<noteq> fid
             then emit (EvWarnFileIdChanged (it_fileId item) fid) s else s),
            item\<lparr>it_fileId := fid\<rparr>))"
  by (auto simp: computeFileId_def getHeaderFromJsonReply_def replyValue_def jsonToString_def Let_def
        split: option.splits JsonValue.splits)

theorem computeFileId_frame_witness:
  "computeFileId exampleJob (exampleItem\<lparr>it_fileId := ''fid0''\<rparr>) Map.empty
     = (exampleJob, exampleItem\<lparr>it_fileId := ''fid0''\<rparr>)
   \<and> computeFileId exampleJob (exampleItem\<lparr>it_fileId := ''fid0''\<rparr>) [''OC-FileID'' \<mapsto> JString ''fid1'']
     = (emit (EvWarnFileIdChanged ''fid0'' ''fid1'') exampleJob, exampleItem\<lparr>it_fileId := ''fid1''\<rparr>)"
  using computeFileId_frame [of Map.empty exampleJob "exampleItem\<lparr>it_fileId := ''fid0''\<rparr>" "''fid1''"]
    computeFileId_frame [of "[''OC-FileID'' \<mapsto> JString ''fid1'']" exampleJob
       "exampleItem\<lparr>it_fileId := ''fid0''\<rparr>" "''fid1''"]
  by (simp add: exampleItem_def)

subsection \<open>Completion under an abort request\<close>

text \<open>
  C9, as the code has it. When the abort flag is set and \<^verbatim>\<open>done\<close> is called with
  \<open>NormalError\<close> or \<open>FatalError\<close>, the status is \<open>SoftError\<close> before
  \<^verbatim>\<open>handleBlackList\<close> runs: the blacklist update is handed an item \<open>i\<close> with status
  \<open>SoftError\<close>. \<^verbatim>\<open>handleJobDoneErrors\<close> runs after it, on the item as the blacklist
  update returns it for \<open>i\<close>: the final status is mapped from the status the blacklist
  update leaves, never from the status \<^verbatim>\<open>done\<close> was called with. The events of the
  call are the blacklist update, \<^verbatim>\<open>propagator()->abort()\<close> only if the blacklist update
  itself hands back \<open>FatalError\<close>, and the completion signal. When the blacklist update
  leaves the status \<open>SoftError\<close>, the mapping sees \<open>SoftError\<close>, the final status is
  \<open>NormalError\<close> and the propagator is not aborted.
\<close>

theorem done_demotes_before_blacklist:
  assumes "abortRequested s" and "status = NormalError \<or> status = FatalError"
  shows "\<exists>i. it_status i = SoftError
           \<and> doneItem env s item status err =
               (emit (EvItemCompleted (e_blacklistUpdate env i))
                  (handleJobDoneErrors (emit (EvBlacklistUpdate i) s) (e_blacklistUpdate env i) status),
                e_blacklistUpdate env i)
           \<and> newEvents s (fst (doneItem env s item status err)) =
               EvBlacklistUpdate i
                 # (if it_status (e_blacklistUpdate env i) = FatalError then [EvPropagatorAbort] else [])
                 @ [EvItemCompleted (e_blacklistUpdate env i)]
           \<and> finalStatus (fst (doneItem env s item status err)) =
               (case mappedStatus (it_status (e_blacklistUpdate env i)) of
                  None \<Rightarrow> finalStatus s | Some m \<Rightarrow> m)
           \<and> (it_status (e_blacklistUpdate env i) = SoftError \<longrightarrow>
                 it_status (snd (doneItem env s item status err)) = SoftError
               \<and> newEvents s (fst (doneItem env s item status err)) =
                   [EvBlacklistUpdate i, EvItemCompleted (e_blacklistUpdate env i)]
               \<and> finalStatus (fst (doneItem env s item status err)) = NormalError)"
proof -
  define i where "i = beforeBlacklist s item status err"
  have st: "it_status i = SoftError"
    using assms by (auto simp: i_def beforeBlacklist_def handleFileRestoration_def Let_def)
  have hb: "handleBlackList env s i = (emit (EvBlacklistUpdate i) s, e_blacklistUpdate env i)"
    using st by (simp add: handleBlackList_def)
  have d: "doneItem env s item status err =
               (emit (EvItemCompleted (e_blacklistUpdate env i))
                  (handleJobDoneErrors (emit (EvBlacklistUpdate i) s) (e_blacklistUpdate env i) status),
                e_blacklistUpdate env i)"
    by (simp add: doneItem_eq i_def [symmetric] hb)
  have n: "newEvents s (fst (doneItem env s item status err)) =
               EvBlacklistUpdate i
                 # (if it_status (e_blacklistUpdate env i) = FatalError then [EvPropagatorAbort] else [])
                 @ [EvItemCompleted (e_blacklistUpdate env i)]"
    by (simp add: d newEvents_def emit_def handleJobDoneErrors_trace)
  have f: "finalStatus (fst (doneItem env s item status err)) =
               (case mappedStatus (it_status (e_blacklistUpdate env i)) of
                  None \<Rightarrow> finalStatus s | Some m \<Rightarrow> m)"
    by (simp add: d emit_def handleJobDoneErrors_finalStatus split: option.split)
  have k: "it_status (e_blacklistUpdate env i) = SoftError \<longrightarrow>
                 it_status (snd (doneItem env s item status err)) = SoftError
               \<and> newEvents s (fst (doneItem env s item status err)) =
                   [EvBlacklistUpdate i, EvItemCompleted (e_blacklistUpdate env i)]
               \<and> finalStatus (fst (doneItem env s item status err)) = NormalError"
    by (simp add: n f) (simp add: d)
  show ?thesis using st d n f k by (intro exI conjI)
qed

theorem done_demotes_before_blacklist_witness:
  "abortRequested abortedJob
   \<and> it_status (snd (doneItem exampleEnv abortedJob exampleItem FatalError ''disk'')) = SoftError
   \<and> map it_status (completedItems (newEvents abortedJob
        (fst (doneItem exampleEnv abortedJob exampleItem FatalError ''disk'')))) = [SoftError]
   \<and> EvPropagatorAbort \<notin> set (newEvents abortedJob
        (fst (doneItem exampleEnv abortedJob exampleItem FatalError ''disk'')))
   \<and> finalStatus (fst (doneItem exampleEnv abortedJob exampleItem FatalError ''disk'')) = NormalError"
proof -
  have h: "abortRequested abortedJob" by (simp add: abortedJob_def)
  obtain i where i: "it_status i = SoftError"
    and d: "snd (doneItem exampleEnv abortedJob exampleItem FatalError ''disk'') = e_blacklistUpdate exampleEnv i"
    and k: "it_status (e_blacklistUpdate exampleEnv i) = SoftError \<longrightarrow>
                 it_status (snd (doneItem exampleEnv abortedJob exampleItem FatalError ''disk'')) = SoftError
               \<and> newEvents abortedJob (fst (doneItem exampleEnv abortedJob exampleItem FatalError ''disk'')) =
                   [EvBlacklistUpdate i, EvItemCompleted (e_blacklistUpdate exampleEnv i)]
               \<and> finalStatus (fst (doneItem exampleEnv abortedJob exampleItem FatalError ''disk'')) = NormalError"
    using done_demotes_before_blacklist [OF h disjI2, OF refl, of exampleEnv exampleItem "''disk''"]
    by fastforce
  have b: "e_blacklistUpdate exampleEnv i = i" by (simp add: exampleEnv_def)
  have s: "it_status (e_blacklistUpdate exampleEnv i) = SoftError" using i b by simp
  note r = k [THEN mp, OF s]
  have c1: "it_status (snd (doneItem exampleEnv abortedJob exampleItem FatalError ''disk'')) = SoftError"
    using r by blast
  have c2: "map it_status (completedItems (newEvents abortedJob
        (fst (doneItem exampleEnv abortedJob exampleItem FatalError ''disk'')))) = [SoftError]"
    using r s by simp
  have c3: "EvPropagatorAbort \<notin> set (newEvents abortedJob
        (fst (doneItem exampleEnv abortedJob exampleItem FatalError ''disk'')))"
    using r by simp
  have c4: "finalStatus (fst (doneItem exampleEnv abortedJob exampleItem FatalError ''disk'')) = NormalError"
    using r by blast
  show ?thesis by (intro conjI h c1 c2 c3 c4)
qed

text \<open>
  C9 as stated fails at what the final-status mapping observes and at the call of
  \<^verbatim>\<open>propagator()->abort()\<close>: both come after the blacklist update, which may write the
  status. A file with a blacklist entry is completed with \<open>FatalError\<close> while the abort
  flag is set, and the blacklist update suppresses the error: it is handed the item with
  \<open>SoftError\<close>, and \<^verbatim>\<open>handleJobDoneErrors\<close> is called on the item with
  \<open>BlacklistedError\<close>, which is also the status the item is completed with. With a
  blacklist update that hands the item back with \<open>FatalError\<close>, the completion calls
  \<^verbatim>\<open>propagator()->abort()\<close> although the abort flag was set.
\<close>

theorem done_under_abort_counterexample:
  "abortRequested abortedJob
   \<and> it_status (beforeBlacklist abortedJob listedItem FatalError ''disk'') = SoftError
   \<and> doneItem suppressingEnv abortedJob listedItem FatalError ''disk'' =
       (emit (EvItemCompleted
                ((beforeBlacklist abortedJob listedItem FatalError ''disk'')\<lparr>it_status := BlacklistedError\<rparr>))
          (handleJobDoneErrors
             (emit (EvBlacklistUpdate (beforeBlacklist abortedJob listedItem FatalError ''disk'')) abortedJob)
             ((beforeBlacklist abortedJob listedItem FatalError ''disk'')\<lparr>it_status := BlacklistedError\<rparr>)
             FatalError),
        (beforeBlacklist abortedJob listedItem FatalError ''disk'')\<lparr>it_status := BlacklistedError\<rparr>)
   \<and> it_status (snd (doneItem suppressingEnv abortedJob listedItem FatalError ''disk'')) = BlacklistedError
   \<and> it_status (snd (doneItem escalatingEnv abortedJob exampleItem FatalError ''disk'')) = FatalError
   \<and> newEvents abortedJob (fst (doneItem escalatingEnv abortedJob exampleItem FatalError ''disk'')) =
       [EvBlacklistUpdate (exampleItem\<lparr>it_status := SoftError, it_errorString := ''disk''\<rparr>),
        EvPropagatorAbort,
        EvItemCompleted (exampleItem\<lparr>it_status := FatalError, it_errorString := ''disk''\<rparr>)]"
  by (simp add: abortedJob_def listedItem_def suppressingEnv_def escalatingEnv_def example_defs
        done_defs beforeBlacklist_def Let_def)

subsection \<open>The finalizer\<close>

lemmas finalize_defs = finalize_def finalizeOne_def setUploadInfo_def commit_def
  UploadInfo_default_def

lemma forEachFile_stop:
  "forEachFile body s pre = (s1, pre1, True) \<Longrightarrow> body s1 f = (s2, f1, False)
     \<Longrightarrow> forEachFile body s (pre @ f # post) = (s2, pre1 @ f1 # post, False)"
proof (induction pre arbitrary: s pre1)
  case Nil
  then show ?case by simp
next
  case (Cons g pre)
  obtain sg g1 go where b: "body s g = (sg, g1, go)" by (cases "body s g") auto
  obtain sr r1 ok where r: "forEachFile body sg pre = (sr, r1, ok)"
    by (cases "forEachFile body sg pre") auto
  from Cons.prems(1) b r have go: "go" and eq: "sr = s1" "pre1 = g1 # r1" "ok"
    by (auto split: if_splits)
  from Cons.IH [of sg r1] r eq Cons.prems(2)
  have "forEachFile body sg (pre @ f # post) = (s2, r1 @ f1 # post, False)" by simp
  with b go eq show ?case by simp
qed

lemma forEachFile_all_go:
  "(\<And>t g. g \<in> set fs \<Longrightarrow> snd (snd (body t g))) \<Longrightarrow> snd (snd (forEachFile body s fs))"
proof (induction fs arbitrary: s)
  case Nil
  then show ?case by simp
next
  case (Cons g fs)
  obtain sg g1 go where b: "body s g = (sg, g1, go)" by (cases "body s g") auto
  have go: "go" using Cons.prems [of g s] b by simp
  have "snd (snd (forEachFile body sg fs))" using Cons.IH [of sg] Cons.prems by simp
  with b go show ?case by (simp add: split_beta)
qed

lemma finalizeOne_quotaTaken:
  "finalizeOne env w s f =
     (case w_updateMetadata w (up_item f) of
        MetaError e \<Rightarrow>
          (fst (doneItem env (quotaTaken env s f) (up_item f) FatalError (''Error updating metadata: '' @ e)),
           f\<lparr>up_item := snd (doneItem env (quotaTaken env s f) (up_item f) FatalError
                              (''Error updating metadata: '' @ e))\<rparr>, False)
      | MetaLocked \<Rightarrow>
          (fst (doneItem env (quotaTaken env s f) (up_item f) SoftError
                  (''The file '' @ it_file (up_item f) @ '' is currently in use'')),
           f\<lparr>up_item := snd (doneItem env (quotaTaken env s f) (up_item f) SoftError
                  (''The file '' @ it_file (up_item f) @ '' is currently in use''))\<rparr>, False)
      | MetaOk \<Rightarrow> (fst (finalizeOne env w s f), fst (snd (finalizeOne env w s f)), True))"
  by (simp add: finalizeOne_def quotaTaken_def Let_def split_beta split: MetaResult.split option.split)

lemma finalizeOne_go:
  "snd (snd (finalizeOne env w s f)) = (w_updateMetadata w (up_item f) = MetaOk)"
  by (simp add: finalizeOne_def Let_def split_beta split: MetaResult.split)

lemma quotaTaken_folderQuota:
  "folderQuota (quotaTaken env s f) p =
     map_option (\<lambda>q. q - (if e_parentPath env (it_file (up_item f)) = p
                           then fu_size (up_fileToUpload f) else 0)) (folderQuota s p)"
  by (cases "folderQuota s p") (auto simp: quotaTaken_def Let_def emit_def split: option.split)

lemma finalizeOne_folderQuota:
  "folderQuota (fst (finalizeOne env w s f)) = folderQuota (quotaTaken env s f)"
  by (simp add: finalizeOne_def quotaTaken_def Let_def split_beta doneItem_fields setUploadInfo_def
        commit_def emit_def split: MetaResult.split option.split)

lemma map_option_minus_sum:
  "map_option (\<lambda>q. q - b) (map_option (\<lambda>q. q - a) x) = map_option (\<lambda>q::int. q - (a + b)) x"
  by (cases x) simp_all

lemma forEachFile_finalize_folderQuota:
  "folderQuota (fst (forEachFile (finalizeOne env w) s fs)) p =
     map_option (\<lambda>q. q - sizesUnder env p (reached w fs)) (folderQuota s p)"
proof (induction fs arbitrary: s)
  case Nil
  then show ?case by (simp add: sizesUnder_def option.map_ident)
next
  case (Cons f fs)
  obtain s1 f1 go where b: "finalizeOne env w s f = (s1, f1, go)"
    by (cases "finalizeOne env w s f") auto
  have go: "go = (w_updateMetadata w (up_item f) = MetaOk)"
    using finalizeOne_go [of env w s f] b by simp
  have q1: "folderQuota s1 p =
     map_option (\<lambda>q. q - (if e_parentPath env (it_file (up_item f)) = p
                           then fu_size (up_fileToUpload f) else 0)) (folderQuota s p)"
    using finalizeOne_folderQuota [of env w s f] b by (simp add: quotaTaken_folderQuota)
  show ?case
  proof (cases go)
    case True
    have "folderQuota (fst (forEachFile (finalizeOne env w) s (f # fs))) p =
            folderQuota (fst (forEachFile (finalizeOne env w) s1 fs)) p"
      using b True by (simp add: split_beta)
    also have "\<dots> = map_option (\<lambda>q. q - sizesUnder env p (reached w fs)) (folderQuota s1 p)"
      by (rule Cons.IH)
    finally show ?thesis
      using True go by (simp add: q1 map_option_minus_sum sizesUnder_def)
  next
    case False
    then show ?thesis using b go by (simp add: q1 sizesUnder_def)
  qed
qed

lemma forEachFile_invariant:
  "(\<And>t g. h (fst (body t g)) = h t) \<Longrightarrow> h (fst (forEachFile body s fs)) = h s"
proof (induction fs arbitrary: s)
  case Nil
  then show ?case by simp
next
  case (Cons f fs)
  obtain s1 f1 go where b: "body s f = (s1, f1, go)" by (cases "body s f") auto
  have "h s1 = h s" using Cons.prems [of s f] b by simp
  moreover have "h (fst (forEachFile body s1 fs)) = h s1" using Cons.IH Cons.prems by simp
  ultimately show ?case using b by (simp add: split_beta)
qed

lemma triggerOne_folderQuota: "folderQuota (fst (triggerOne env w s f)) = folderQuota s"
  by (simp add: triggerOne_def Let_def split_beta abortWithError_fields emit_def split: option.split)

lemma triggerUpload_folderQuota: "folderQuota (triggerUpload env w s) = folderQuota s"
  using forEachFile_invariant [of folderQuota "triggerOne env w" s "uploadFileParameters s", OF triggerOne_folderQuota]
  by (simp add: triggerUpload_def split_beta Let_def emit_def)

lemma doStartUpload_folderQuota:
  "folderQuota (doStartUpload env w s item ftu ck) = folderQuota s"
  by (simp add: doStartUpload_def Let_def triggerUpload_folderQuota doneItem_fields setUploadInfo_def
        commit_def emit_def)

lemma slotStartUpload_folderQuota:
  "folderQuota (slotStartUpload env w s item ftu ty ck) = folderQuota s"
  by (simp add: slotStartUpload_def slotOnErrorStartFolderUnlock_def Let_def doneItem_fields
        doStartUpload_folderQuota)

lemma slotComputeTransmissionChecksum_folderQuota:
  "folderQuota (afterCall (slotComputeTransmissionChecksum env w s item ftu ty ck)) = folderQuota s"
  by (simp add: slotComputeTransmissionChecksum_def Let_def slotStartUpload_folderQuota emit_def)

lemma slotComputeContentChecksum_folderQuota:
  "folderQuota (afterCall (slotComputeContentChecksum env w s item ftu)) = folderQuota s"
  by (simp add: slotComputeContentChecksum_def Let_def split_beta
        slotComputeTransmissionChecksum_folderQuota emit_def)

lemma startUploadFile_folderQuota:
  "folderQuota (afterCall (startUploadFile env w s item ftu)) = folderQuota s"
  by (simp add: startUploadFile_def Let_def doneItem_fields slotComputeContentChecksum_folderQuota
        emit_def)

lemma invokeMethod_folderQuota:
  "folderQuota (invokeMethod env w s item) = folderQuota s"
  by (simp add: invokeMethod_def startItem_def startUploadFile_folderQuota)

lemma scheduleLoop_folderQuota:
  "folderQuota (scheduleLoop n env w s) = folderQuota s"
proof (induction n arbitrary: s)
  case 0
  then show ?case by simp
next
  case (Suc n)
  then show ?case by (cases "items s") (simp_all add: invokeMethod_folderQuota)
qed

lemma scheduleSelfOrChild_folderQuota:
  "folderQuota (fst (scheduleSelfOrChild env w s)) = folderQuota s"
  by (simp add: scheduleSelfOrChild_def Let_def scheduleLoop_folderQuota)

lemma finalize_folderQuota:
  "folderQuota (finalize env w s) =
     folderQuota (fst (forEachFile (finalizeOne env w) s (uploadFileParameters s)))"
  by (simp add: finalize_def Let_def split_beta scheduleSelfOrChild_folderQuota emit_def)

lemma reached_all:
  "\<forall>f \<in> set fs. w_updateMetadata w (up_item f) = MetaOk \<Longrightarrow> reached w fs = fs"
  by (induction fs) simp_all

text \<open>
  C4, as the code has it. For a folder \<open>p\<close> whose quota is known, \<^verbatim>\<open>finalize\<close> lowers
  the quota by the sizes of all files under \<open>p\<close> that its loop reaches: the files it
  completes through \<^verbatim>\<open>done(Success)\<close> and also the file at which the metadata update
  fails, whose quota is taken before the update is tried. A quota that is not known stays
  unknown. When every metadata update succeeds, the loop reaches the whole batch and the
  quota goes down by exactly the sum of the sizes of the batch's files under \<open>p\<close>.
\<close>

theorem finalize_takes_quota_of_reached:
  "folderQuota (finalize env w s) p =
     map_option (\<lambda>q. q - sizesUnder env p (reached w (uploadFileParameters s))) (folderQuota s p)
   \<and> ((\<forall>f \<in> set (uploadFileParameters s). w_updateMetadata w (up_item f) = MetaOk)
        \<longrightarrow> folderQuota (finalize env w s) p =
              map_option (\<lambda>q. q - sizesUnder env p (uploadFileParameters s)) (folderQuota s p))"
  by (simp add: finalize_folderQuota forEachFile_finalize_folderQuota reached_all)

theorem finalize_takes_quota_of_reached_witness:
  "folderQuota (finalize exampleEnv failingWorld exampleBatch) ''.'' = Some (1000 - (100 + 100))
   \<and> w_updateMetadata exampleWorld (exampleItem\<lparr>it_file := ''c.txt''\<rparr>) = MetaOk
   \<and> folderQuota (finalize exampleEnv exampleWorld exampleBatch) ''.''
       = Some (1000 - (100 + 100 + 100))"
proof -
  have a: "folderQuota (finalize exampleEnv failingWorld exampleBatch) ''.'' = Some (1000 - (100 + 100))"
    using finalize_takes_quota_of_reached [of exampleEnv failingWorld exampleBatch "''.''", THEN conjunct1]
    by (simp add: failingWorld_def exampleBatch_def example_defs sizesUnder_def)
  have h: "\<forall>f \<in> set (uploadFileParameters exampleBatch). w_updateMetadata exampleWorld (up_item f) = MetaOk"
    by (simp add: exampleWorld_def)
  have h': "w_updateMetadata exampleWorld (exampleItem\<lparr>it_file := ''c.txt''\<rparr>) = MetaOk"
    by (simp add: exampleWorld_def)
  have b: "folderQuota (finalize exampleEnv exampleWorld exampleBatch) ''.''
       = Some (1000 - (100 + 100 + 100))"
    using finalize_takes_quota_of_reached [of exampleEnv exampleWorld exampleBatch "''.''",
        THEN conjunct2, THEN mp, OF h]
    by (simp add: exampleBatch_def example_defs sizesUnder_def)
  show ?thesis by (intro conjI a h' b)
qed

text \<open>
  C4 as stated fails: a batch of one file under a folder with quota 1000, whose metadata
  update fails. The file ends with \<open>FatalError\<close>, not \<open>Success\<close>, and the quota of its
  folder is 900 afterwards.
\<close>

theorem quota_taken_without_success_counterexample:
  "folderQuota (exampleBatch\<lparr>uploadFileParameters := [exampleEntry (exampleItem\<lparr>it_file := ''b.txt''\<rparr>)]\<rparr>) ''.''
     = Some 1000
   \<and> folderQuota (finalize exampleEnv failingWorld
        (exampleBatch\<lparr>uploadFileParameters := [exampleEntry (exampleItem\<lparr>it_file := ''b.txt''\<rparr>)]\<rparr>)) ''.''
     = Some 900
   \<and> map (\<lambda>f. it_status (up_item f)) (uploadFileParameters (finalize exampleEnv failingWorld
        (exampleBatch\<lparr>uploadFileParameters := [exampleEntry (exampleItem\<lparr>it_file := ''b.txt''\<rparr>)]\<rparr>)))
     = [FatalError]"
  by (simp add: failingWorld_def exampleBatch_def example_defs finalize_defs done_defs Let_def)

lemma quotaTaken_fields:
  "trace (quotaTaken env s f) = trace s @ [EvUpdateMetadata (it_file (up_item f))]"
  "uploadInfo (quotaTaken env s f) = uploadInfo s"
  by (simp_all add: quotaTaken_def Let_def emit_def split: option.split)

text \<open>
  C8. Let the metadata update succeed for the files \<open>pre\<close> and fail (error or locked)
  for the next file \<open>f\<close>. Then \<^verbatim>\<open>finalize\<close> ends in \<^verbatim>\<open>done\<close> for \<open>f\<close>, called with
  \<open>FatalError\<close> for an error and \<open>SoftError\<close> for a locked file, in the state \<open>s1\<close>
  that the files \<open>pre\<close> left, with the quota of the folder of \<open>f\<close> already lowered by
  the size of \<open>f\<close>. The files \<open>post\<close> after \<open>f\<close> stay in the list as they were, and
  nothing of the result depends on them: the quota is that of \<open>s1\<close> less the size of
  \<open>f\<close>, the upload records are those of \<open>s1\<close>, and the only completion signal after
  \<open>s1\<close> is the one for \<open>f\<close>.
\<close>

theorem finalize_stops_at_failure:
  assumes "uploadFileParameters s = pre @ f # post"
    and "\<forall>g \<in> set pre. w_updateMetadata w (up_item g) = MetaOk"
    and "w_updateMetadata w (up_item f) \<noteq> MetaOk"
  shows "\<exists>s1 pre1 status msg.
           forEachFile (finalizeOne env w) s pre = (s1, pre1, True)
         \<and> (status, msg) =
             (case w_updateMetadata w (up_item f) of
                MetaError e \<Rightarrow> (FatalError, ''Error updating metadata: '' @ e)
              | _ \<Rightarrow> (SoftError, ''The file '' @ it_file (up_item f) @ '' is currently in use''))
         \<and> finalize env w s =
             (fst (doneItem env (quotaTaken env s1 f) (up_item f) status msg))
               \<lparr>uploadFileParameters :=
                  pre1 @ f\<lparr>up_item := snd (doneItem env (quotaTaken env s1 f) (up_item f) status msg)\<rparr> # post\<rparr>
         \<and> folderQuota (finalize env w s) p =
             map_option (\<lambda>q. q - (if e_parentPath env (it_file (up_item f)) = p
                                   then fu_size (up_fileToUpload f) else 0)) (folderQuota s1 p)
         \<and> uploadInfo (finalize env w s) = uploadInfo s1
         \<and> completedItems (newEvents s1 (finalize env w s)) =
             [snd (doneItem env (quotaTaken env s1 f) (up_item f) status msg)]"
proof -
  obtain s1 pre1 ok where p: "forEachFile (finalizeOne env w) s pre = (s1, pre1, ok)"
    by (cases "forEachFile (finalizeOne env w) s pre") auto
  have "snd (snd (forEachFile (finalizeOne env w) s pre))"
    by (rule forEachFile_all_go) (simp add: finalizeOne_go assms(2))
  with p have p1: "forEachFile (finalizeOne env w) s pre = (s1, pre1, True)" by simp
  define status where "status = (case w_updateMetadata w (up_item f) of MetaError e \<Rightarrow> FatalError | _ \<Rightarrow> SoftError)"
  define msg where "msg = (case w_updateMetadata w (up_item f) of
       MetaError e \<Rightarrow> ''Error updating metadata: '' @ e
     | _ \<Rightarrow> ''The file '' @ it_file (up_item f) @ '' is currently in use'')"
  define d where "d = doneItem env (quotaTaken env s1 f) (up_item f) status msg"
  have one: "finalizeOne env w s1 f = (fst d, f\<lparr>up_item := snd d\<rparr>, False)"
    using assms(3) unfolding d_def status_def msg_def
    by (subst finalizeOne_quotaTaken) (simp split: MetaResult.split)
  have "forEachFile (finalizeOne env w) s (pre @ f # post) = (fst d, pre1 @ f\<lparr>up_item := snd d\<rparr> # post, False)"
    using p1 one by (intro forEachFile_stop) simp_all
  then have fin: "finalize env w s = (fst d)\<lparr>uploadFileParameters := pre1 @ f\<lparr>up_item := snd d\<rparr> # post\<rparr>"
    by (simp add: finalize_def assms(1))
  have sm: "(status, msg) =
             (case w_updateMetadata w (up_item f) of
                MetaError e \<Rightarrow> (FatalError, ''Error updating metadata: '' @ e)
              | _ \<Rightarrow> (SoftError, ''The file '' @ it_file (up_item f) @ '' is currently in use''))"
    by (simp add: status_def msg_def split: MetaResult.split)
  have q: "folderQuota (finalize env w s) p =
             map_option (\<lambda>q. q - (if e_parentPath env (it_file (up_item f)) = p
                                   then fu_size (up_fileToUpload f) else 0)) (folderQuota s1 p)"
    by (simp add: fin d_def doneItem_fields quotaTaken_folderQuota)
  have u: "uploadInfo (finalize env w s) = uploadInfo s1"
    by (simp add: fin d_def doneItem_fields quotaTaken_fields)
  obtain evs where t: "trace (fst d) = trace (quotaTaken env s1 f) @ evs @ [EvItemCompleted (snd d)]"
      "list_all isBookkeeping evs"
    unfolding d_def using doneItem_trace by blast
  have "newEvents s1 (finalize env w s) = EvUpdateMetadata (it_file (up_item f)) # evs @ [EvItemCompleted (snd d)]"
    by (rule newEvents_append) (simp add: fin t(1) quotaTaken_fields)
  then have c: "completedItems (newEvents s1 (finalize env w s)) = [snd d]"
    using t(2) by (simp add: completedItems_append completedItems_bookkeeping)
  show ?thesis
    using p1 sm fin q u c unfolding d_def by (intro exI conjI)
qed

theorem finalize_stops_at_failure_witness:
  "uploadFileParameters exampleBatch =
     [exampleEntry exampleItem] @ exampleEntry (exampleItem\<lparr>it_file := ''b.txt''\<rparr>)
        # [exampleEntry (exampleItem\<lparr>it_file := ''c.txt''\<rparr>)]
   \<and> w_updateMetadata failingWorld (up_item (exampleEntry exampleItem)) = MetaOk
   \<and> w_updateMetadata failingWorld (up_item (exampleEntry (exampleItem\<lparr>it_file := ''b.txt''\<rparr>))) = MetaError ''db''
   \<and> map (\<lambda>f. it_status (up_item f)) (uploadFileParameters (finalize exampleEnv failingWorld exampleBatch))
       = [Success, FatalError, NoStatus]
   \<and> folderQuota (finalize exampleEnv failingWorld exampleBatch) ''.'' = Some 800
   \<and> map it_file (completedItems (trace (finalize exampleEnv failingWorld exampleBatch))) = [''a.txt'', ''b.txt'']"
proof -
  have h1: "uploadFileParameters exampleBatch =
     [exampleEntry exampleItem] @ exampleEntry (exampleItem\<lparr>it_file := ''b.txt''\<rparr>)
        # [exampleEntry (exampleItem\<lparr>it_file := ''c.txt''\<rparr>)]"
    by (simp add: exampleBatch_def)
  have h2: "w_updateMetadata failingWorld (up_item (exampleEntry exampleItem)) = MetaOk"
    by (simp add: failingWorld_def example_defs)
  then have h2': "\<forall>g \<in> set [exampleEntry exampleItem]. w_updateMetadata failingWorld (up_item g) = MetaOk"
    by simp
  have h3: "w_updateMetadata failingWorld (up_item (exampleEntry (exampleItem\<lparr>it_file := ''b.txt''\<rparr>))) = MetaError ''db''"
    by (simp add: failingWorld_def example_defs)
  then have h3': "w_updateMetadata failingWorld (up_item (exampleEntry (exampleItem\<lparr>it_file := ''b.txt''\<rparr>))) \<noteq> MetaOk"
    by simp
  have c1: "map (\<lambda>f. it_status (up_item f)) (uploadFileParameters (finalize exampleEnv failingWorld exampleBatch))
       = [Success, FatalError, NoStatus]"
    by (simp add: failingWorld_def exampleBatch_def example_defs finalize_defs done_defs Let_def)
  have c2: "folderQuota (finalize exampleEnv failingWorld exampleBatch) ''.'' = Some 800"
    by (simp add: failingWorld_def exampleBatch_def example_defs finalize_defs done_defs Let_def)
  have c3: "map it_file (completedItems (trace (finalize exampleEnv failingWorld exampleBatch))) = [''a.txt'', ''b.txt'']"
    by (simp add: failingWorld_def exampleBatch_def example_defs finalize_defs done_defs Let_def)
  show ?thesis
    using finalize_stops_at_failure [OF h1 h2' h3', of exampleEnv "''.''"]
    by (intro conjI h1 h2 h3 c1 c2 c3)
qed

subsection \<open>Files that are still changing\<close>

lemmas upload_defs = slotStartUpload_def doStartUpload_def triggerUpload_def triggerOne_def
  slotOnErrorStartFolderUnlock_def fileIsStillChanging_def setUploadInfo_def commit_def
  abortWithError_def

lemma forEachFile_length: "length (fst (snd (forEachFile body s fs))) = length fs"
proof (induction fs arbitrary: s)
  case Nil
  then show ?case by simp
next
  case (Cons f fs)
  obtain s1 f1 go where b: "body s f = (s1, f1, go)" by (cases "body s f") auto
  show ?case using b Cons.IH [of s1] by (simp add: split_beta)
qed

lemma triggerUpload_length:
  "length (uploadFileParameters (triggerUpload env w s)) = length (uploadFileParameters s)"
  using forEachFile_length [of "triggerOne env w" s "uploadFileParameters s"]
  by (simp add: triggerUpload_def split_beta Let_def emit_def)

lemma doStartUpload_appends:
  "\<not> abortRequested s \<Longrightarrow> it_renameTarget item = [] \<or> it_renameTarget item = it_file item
     \<Longrightarrow> length (uploadFileParameters (doStartUpload env w s item ftu ck))
           = Suc (length (uploadFileParameters s))"
  by (auto simp: doStartUpload_def Let_def triggerUpload_length setUploadInfo_def commit_def emit_def)

text \<open>
  C6, as the code has it. Take an item that reaches the check in \<^verbatim>\<open>slotStartUpload\<close>:
  the file exists and its modification time is the one read before checksumming. If the
  modification time is newer than the clock less \<^verbatim>\<open>minimumFileAgeForUpload\<close> and less
  than 10 seconds ahead of the clock, \<^verbatim>\<open>anotherSyncNeeded\<close> is set, \<^verbatim>\<open>done\<close> is called with
  \<open>SoftError\<close> and "Local file changed during sync.", and neither the batch nor the list
  of jobs changes. If it is old enough, or 10 seconds or more ahead of the clock, the item
  goes on to \<^verbatim>\<open>doStartUpload\<close>, which adds it to the batch when no abort is requested
  and no rename is pending.
\<close>

theorem slotStartUpload_too_young:
  assumes "w_fileExists w (fu_path fileToUpload)"
    and "w_getModTime w (e_fullLocalPath env (it_file item)) = it_modtime item"
  shows "(w_currentMSecs w - it_modtime item * 1000 < e_minimumFileAgeForUpload env
            \<and> w_currentMSecs w - it_modtime item * 1000 > - 10000
          \<longrightarrow> slotStartUpload env w s item fileToUpload ty ck =
                fst (doneItem env (s\<lparr>anotherSyncNeeded := True\<rparr>) (checkedItem env w item ty ck)
                       SoftError ''Local file changed during sync.'')
              \<and> anotherSyncNeeded (slotStartUpload env w s item fileToUpload ty ck)
              \<and> uploadFileParameters (slotStartUpload env w s item fileToUpload ty ck)
                  = uploadFileParameters s
              \<and> jobs (slotStartUpload env w s item fileToUpload ty ck) = jobs s)
       \<and> (w_currentMSecs w - it_modtime item * 1000 \<ge> e_minimumFileAgeForUpload env
            \<or> w_currentMSecs w - it_modtime item * 1000 \<le> - 10000
          \<longrightarrow> slotStartUpload env w s item fileToUpload ty ck =
                doStartUpload env w s (checkedItem env w item ty ck)
                  (fileToUpload\<lparr>fu_size := w_getSize w (fu_path fileToUpload)\<rparr>) ck
              \<and> (\<not> abortRequested s \<and> (it_renameTarget item = [] \<or> it_renameTarget item = it_file item)
                  \<longrightarrow> length (uploadFileParameters (slotStartUpload env w s item fileToUpload ty ck))
                        = Suc (length (uploadFileParameters s))))"
proof -
  have young: "fileIsStillChanging env w (checkedItem env w item ty ck) =
      (w_currentMSecs w - it_modtime item * 1000 < e_minimumFileAgeForUpload env
         \<and> w_currentMSecs w - it_modtime item * 1000 > - 10000)"
    using assms(2) by (simp add: fileIsStillChanging_def checkedItem_def Let_def)
  have eq: "slotStartUpload env w s item fileToUpload ty ck =
      (if fileIsStillChanging env w (checkedItem env w item ty ck)
       then fst (doneItem env (s\<lparr>anotherSyncNeeded := True\<rparr>) (checkedItem env w item ty ck)
                   SoftError ''Local file changed during sync.'')
       else doStartUpload env w s (checkedItem env w item ty ck)
              (fileToUpload\<lparr>fu_size := w_getSize w (fu_path fileToUpload)\<rparr>) ck)"
    using assms by (simp add: slotStartUpload_def slotOnErrorStartFolderUnlock_def checkedItem_def Let_def)
  have ren: "it_renameTarget (checkedItem env w item ty ck) = it_renameTarget item"
    "it_file (checkedItem env w item ty ck) = it_file item"
    by (simp_all add: checkedItem_def)
  show ?thesis
    unfolding eq young
    by (auto simp: doneItem_fields doStartUpload_appends ren)
qed

theorem slotStartUpload_too_young_witness:
  "w_fileExists exampleWorld (fu_path (exampleFile exampleItem))
   \<and> w_getModTime exampleWorld (e_fullLocalPath exampleEnv (it_file exampleItem)) = it_modtime exampleItem
   \<and> w_currentMSecs (exampleWorld\<lparr>w_currentMSecs := 1001000\<rparr>) - it_modtime exampleItem * 1000 < e_minimumFileAgeForUpload exampleEnv
   \<and> w_currentMSecs (exampleWorld\<lparr>w_currentMSecs := 1001000\<rparr>) - it_modtime exampleItem * 1000 > - 10000
   \<and> anotherSyncNeeded (slotStartUpload exampleEnv (exampleWorld\<lparr>w_currentMSecs := 1001000\<rparr>)
         exampleJob exampleItem (exampleFile exampleItem) ''MD5'' ''0f'')
   \<and> uploadFileParameters (slotStartUpload exampleEnv (exampleWorld\<lparr>w_currentMSecs := 1001000\<rparr>)
         exampleJob exampleItem (exampleFile exampleItem) ''MD5'' ''0f'') = []
   \<and> length (uploadFileParameters (slotStartUpload exampleEnv exampleWorld
         exampleJob exampleItem (exampleFile exampleItem) ''MD5'' ''0f'')) = 1"
proof -
  have h1: "w_fileExists exampleWorld (fu_path (exampleFile exampleItem))"
    "w_fileExists (exampleWorld\<lparr>w_currentMSecs := 1001000\<rparr>) (fu_path (exampleFile exampleItem))"
    by (simp_all add: example_defs)
  have h2: "w_getModTime exampleWorld (e_fullLocalPath exampleEnv (it_file exampleItem)) = it_modtime exampleItem"
    "w_getModTime (exampleWorld\<lparr>w_currentMSecs := 1001000\<rparr>) (e_fullLocalPath exampleEnv (it_file exampleItem)) = it_modtime exampleItem"
    by (simp_all add: example_defs)
  have a: "w_currentMSecs (exampleWorld\<lparr>w_currentMSecs := 1001000\<rparr>) - it_modtime exampleItem * 1000 < e_minimumFileAgeForUpload exampleEnv"
    "w_currentMSecs (exampleWorld\<lparr>w_currentMSecs := 1001000\<rparr>) - it_modtime exampleItem * 1000 > - 10000"
    by (simp_all add: example_defs)
  have b: "w_currentMSecs exampleWorld - it_modtime exampleItem * 1000 \<ge> e_minimumFileAgeForUpload exampleEnv"
    "\<not> abortRequested exampleJob" "it_renameTarget exampleItem = []"
    by (simp_all add: example_defs)
  note young = slotStartUpload_too_young [OF h1(2) h2(2), of exampleJob "''MD5''" "''0f''", THEN conjunct1, rule_format, OF conjI, OF a]
  note old = slotStartUpload_too_young [OF h1(1) h2(1), of exampleJob "''MD5''" "''0f''", THEN conjunct2, rule_format, OF disjI1, OF b(1)]
  have c1: "anotherSyncNeeded (slotStartUpload exampleEnv (exampleWorld\<lparr>w_currentMSecs := 1001000\<rparr>)
         exampleJob exampleItem (exampleFile exampleItem) ''MD5'' ''0f'')"
    using young by blast
  have c2: "uploadFileParameters (slotStartUpload exampleEnv (exampleWorld\<lparr>w_currentMSecs := 1001000\<rparr>)
         exampleJob exampleItem (exampleFile exampleItem) ''MD5'' ''0f'') = []"
  proof -
    have "uploadFileParameters (slotStartUpload exampleEnv (exampleWorld\<lparr>w_currentMSecs := 1001000\<rparr>)
         exampleJob exampleItem (exampleFile exampleItem) ''MD5'' ''0f'') = uploadFileParameters exampleJob"
      using young by blast
    then show ?thesis by (simp add: exampleJob_def)
  qed
  have c3: "length (uploadFileParameters (slotStartUpload exampleEnv exampleWorld
         exampleJob exampleItem (exampleFile exampleItem) ''MD5'' ''0f'')) = 1"
  proof -
    have "length (uploadFileParameters (slotStartUpload exampleEnv exampleWorld
         exampleJob exampleItem (exampleFile exampleItem) ''MD5'' ''0f''))
           = Suc (length (uploadFileParameters exampleJob))"
      using old b(2,3) by blast
    then show ?thesis by (simp add: exampleJob_def)
  qed
  show ?thesis by (intro conjI h1(1) h2(1) a c1 c2 c3)
qed

text \<open>
  C6 as stated fails at the boundary: a file whose modification time is exactly 10 seconds
  ahead of the clock is newer than the clock less the minimum age and not more than 10
  seconds in the future, yet it is accepted: no completion, no need of another sync, one
  entry in the batch and the PUT job started.
\<close>

theorem too_young_boundary_counterexample:
  "it_modtime exampleItem * 1000 > w_currentMSecs tenSecondsAhead - e_minimumFileAgeForUpload exampleEnv
   \<and> it_modtime exampleItem * 1000 - w_currentMSecs tenSecondsAhead \<le> 10000
   \<and> w_fileExists tenSecondsAhead (fu_path (exampleFile exampleItem))
   \<and> w_getModTime tenSecondsAhead (e_fullLocalPath exampleEnv (it_file exampleItem)) = it_modtime exampleItem
   \<and> \<not> anotherSyncNeeded (slotStartUpload exampleEnv tenSecondsAhead exampleJob exampleItem
          (exampleFile exampleItem) ''MD5'' ''0f'')
   \<and> completedItems (trace (slotStartUpload exampleEnv tenSecondsAhead exampleJob exampleItem
          (exampleFile exampleItem) ''MD5'' ''0f'')) = []
   \<and> map (\<lambda>f. it_file (up_item f)) (uploadFileParameters (slotStartUpload exampleEnv tenSecondsAhead
          exampleJob exampleItem (exampleFile exampleItem) ''MD5'' ''0f'')) = [''a.txt'']
   \<and> jobs (slotStartUpload exampleEnv tenSecondsAhead exampleJob exampleItem
          (exampleFile exampleItem) ''MD5'' ''0f'') = [0]"
  by (simp add: tenSecondsAhead_def example_defs upload_defs Let_def emit_def)

subsection \<open>A failed bulk PUT\<close>

lemmas put_defs = slotPutFinished_def putFinishedOne_def commonErrorHandling_def
  checkResettingErrors_def getUploadInfo_def slotJobDestroyed_def abortWithError_def
  setUploadInfo_def commit_def UploadInfo_default_def

lemma abortWithError_trace:
  "\<exists>evs. trace (fst (abortWithError env s item st err)) =
            trace s @ EvJobAbort # evs @ [EvItemCompleted (snd (abortWithError env s item st err))]
         \<and> list_all isBookkeeping evs"
  using doneItem_trace [of env "emit EvJobAbort s" item st err]
  by (simp add: abortWithError_def emit_def)

lemma checkResettingErrors_trace:
  "\<exists>evs. trace (checkResettingErrors env s item) = trace s @ evs \<and> completedItems evs = []
       \<and> EvJobAbort \<notin> set evs"
  by (simp add: checkResettingErrors_def Let_def setUploadInfo_def commit_def emit_def)

lemma checkResettingErrors_other:
  "p \<noteq> it_file item \<Longrightarrow> uploadInfo (checkResettingErrors env s item) p = uploadInfo s p"
  by (simp add: checkResettingErrors_def Let_def setUploadInfo_def commit_def emit_def)

lemma checkResettingErrors_fields:
  "uploadFileParameters (checkResettingErrors env s item) = uploadFileParameters s"
  "folderQuota (checkResettingErrors env s item) = folderQuota s"
  "anotherSyncNeeded (checkResettingErrors env s item) = anotherSyncNeeded s"
  "jobs (checkResettingErrors env s item) = jobs s"
  by (simp_all add: checkResettingErrors_def Let_def setUploadInfo_def commit_def emit_def)

lemma commonErrorHandling_eq:
  "commonErrorHandling env s item fileToUpload job =
     abortWithError env (fst (beforeAbort env s item fileToUpload job)) item
       (fst (snd (beforeAbort env s item fileToUpload job)))
       (snd (snd (beforeAbort env s item fileToUpload job)))"
  by (simp add: commonErrorHandling_def beforeAbort_def Let_def split_beta)

lemma beforeAbort_trace:
  "\<exists>evs. trace (fst (beforeAbort env s item fileToUpload job)) = trace s @ evs
         \<and> completedItems evs = [] \<and> EvJobAbort \<notin> set evs"
proof -
  define s1 where "s1 = (if it_httpErrorCode item = 412
                then (emit (EvSchedulePathForRemoteDiscovery (it_file item)) s)\<lparr>anotherSyncNeeded := True\<rparr>
                else s)"
  obtain e2 where e2: "trace (checkResettingErrors env s1 item) = trace s1 @ e2" "completedItems e2 = []"
      "EvJobAbort \<notin> set e2"
    using checkResettingErrors_trace by blast
  have t1: "trace s1 = trace s @ (if it_httpErrorCode item = 412
      then [EvSchedulePathForRemoteDiscovery (it_file item)] else [])"
    by (simp add: s1_def emit_def)
  have "trace (fst (beforeAbort env s item fileToUpload job)) =
      trace s @ ((if it_httpErrorCode item = 412
      then [EvSchedulePathForRemoteDiscovery (it_file item)] else []) @ e2
        @ (if it_httpErrorCode item = 507 then [EvInsufficientRemoteStorage] else []))"
    using e2(1) t1
    by (simp add: beforeAbort_def s1_def [symmetric] Let_def split_beta emit_def)
  moreover have "completedItems ((if it_httpErrorCode item = 412
      then [EvSchedulePathForRemoteDiscovery (it_file item)] else []) @ e2
        @ (if it_httpErrorCode item = 507 then [EvInsufficientRemoteStorage] else [])) = []"
    using e2(2) by (simp add: completedItems_append)
  moreover have "EvJobAbort \<notin> set ((if it_httpErrorCode item = 412
      then [EvSchedulePathForRemoteDiscovery (it_file item)] else []) @ e2
        @ (if it_httpErrorCode item = 507 then [EvInsufficientRemoteStorage] else []))"
    using e2(3) by simp
  ultimately show ?thesis by blast
qed

lemma beforeAbort_fields:
  "uploadFileParameters (fst (beforeAbort env s item fileToUpload job)) = uploadFileParameters s"
  "p \<noteq> it_file item \<Longrightarrow> uploadInfo (fst (beforeAbort env s item fileToUpload job)) p = uploadInfo s p"
  by (simp_all add: beforeAbort_def Let_def split_beta emit_def checkResettingErrors_fields
        checkResettingErrors_other)

text \<open>
  C2, as the code has it. When the reply of the bulk PUT carries a network error, the
  failure is handled at the first entry of the batch only: its item takes the reply's
  status code, time stamp and request id, \<^verbatim>\<open>commonErrorHandling\<close> classifies it, aborts
  the job and marks it done, and \<^verbatim>\<open>slotPutFinished\<close> returns there. The entries after
  the first stay as they were, the call gives one completion signal, the one for the
  first item, and no upload record of another file changes.
\<close>

theorem slotPutFinished_error_stops:
  assumes "rp_error job \<noteq> NoError" and "uploadFileParameters s = f # rest"
  shows "\<exists>s1 item1.
           commonErrorHandling env (slotJobDestroyed (rp_jobId job) s) (repliedItem job (up_item f))
             (up_fileToUpload f) job = (s1, item1)
         \<and> slotPutFinished env w s job = s1\<lparr>uploadFileParameters := f\<lparr>up_item := item1\<rparr> # rest\<rparr>
         \<and> completedItems (newEvents s (slotPutFinished env w s job)) = [item1]
         \<and> EvJobAbort \<in> set (newEvents s (slotPutFinished env w s job))
         \<and> (\<forall>p. p \<noteq> it_file (up_item f)
               \<longrightarrow> uploadInfo (slotPutFinished env w s job) p = uploadInfo s p)"
proof -
  define s0 where "s0 = slotJobDestroyed (rp_jobId job) s"
  define item0 where "item0 = repliedItem job (up_item f)"
  define b where "b = beforeAbort env s0 item0 (up_fileToUpload f) job"
  define r where "r = commonErrorHandling env s0 item0 (up_fileToUpload f) job"
  have r_eq: "r = abortWithError env (fst b) item0 (fst (snd b)) (snd (snd b))"
    unfolding r_def b_def by (rule commonErrorHandling_eq)
  have one: "putFinishedOne env w job s f = (fst r, f\<lparr>up_item := snd r\<rparr>, Return)"
    using assms(1)
    by (simp add: putFinishedOne_def Let_def split_beta r_def s0_def item0_def repliedItem_def)
  have "forEachReply env w job s (f # rest) = (fst r, f\<lparr>up_item := snd r\<rparr> # rest, Return)"
    using one by simp
  then have res: "slotPutFinished env w s job = (fst r)\<lparr>uploadFileParameters := f\<lparr>up_item := snd r\<rparr> # rest\<rparr>"
    by (simp add: slotPutFinished_def assms(2))
  have file0: "it_file item0 = it_file (up_item f)"
    by (simp add: item0_def repliedItem_def)
  have t0: "trace s0 = trace s" "uploadInfo s0 = uploadInfo s"
    by (simp_all add: s0_def slotJobDestroyed_def)
  obtain e1 where e1: "trace (fst b) = trace s0 @ e1" "completedItems e1 = []"
    unfolding b_def using beforeAbort_trace by blast
  obtain e2 where e2: "trace (fst r) = trace (fst b) @ EvJobAbort # e2 @ [EvItemCompleted (snd r)]"
      "list_all isBookkeeping e2"
    unfolding r_eq using abortWithError_trace by blast
  have n: "newEvents s (slotPutFinished env w s job) = e1 @ EvJobAbort # e2 @ [EvItemCompleted (snd r)]"
    by (rule newEvents_append) (simp add: res e2(1) e1(1) t0)
  have c: "completedItems (newEvents s (slotPutFinished env w s job)) = [snd r]"
    using e1(2) e2(2) by (simp add: n completedItems_append completedItems_bookkeeping)
  have a: "EvJobAbort \<in> set (newEvents s (slotPutFinished env w s job))"
    by (simp add: n)
  have u: "\<forall>p. p \<noteq> it_file (up_item f) \<longrightarrow> uploadInfo (slotPutFinished env w s job) p = uploadInfo s p"
    by (simp add: res r_eq abortWithError_fields b_def beforeAbort_fields file0 t0)
  have "commonErrorHandling env (slotJobDestroyed (rp_jobId job) s) (repliedItem job (up_item f))
             (up_fileToUpload f) job = (fst r, snd r)"
    by (simp add: r_def s0_def item0_def)
  then show ?thesis using res c a u by blast
qed

theorem slotPutFinished_error_stops_witness:
  "rp_error (failedReply 500) = NetError 1
   \<and> uploadFileParameters twoFiles
       = exampleEntry exampleItem # [exampleEntry (exampleItem\<lparr>it_file := ''b.txt''\<rparr>)]
   \<and> drop 1 (uploadFileParameters (slotPutFinished exampleEnv exampleWorld twoFiles (failedReply 500)))
       = [exampleEntry (exampleItem\<lparr>it_file := ''b.txt''\<rparr>)]
   \<and> length (completedItems (newEvents twoFiles
         (slotPutFinished exampleEnv exampleWorld twoFiles (failedReply 500)))) = 1"
proof -
  have h1: "rp_error (failedReply 500) = NetError 1" by (simp add: failedReply_def)
  then have h1': "rp_error (failedReply 500) \<noteq> NoError" by simp
  have h2: "uploadFileParameters twoFiles
       = exampleEntry exampleItem # [exampleEntry (exampleItem\<lparr>it_file := ''b.txt''\<rparr>)]"
    by (simp add: twoFiles_def)
  obtain s1 item1 where
    r: "slotPutFinished exampleEnv exampleWorld twoFiles (failedReply 500) =
          s1\<lparr>uploadFileParameters := (exampleEntry exampleItem)\<lparr>up_item := item1\<rparr>
               # [exampleEntry (exampleItem\<lparr>it_file := ''b.txt''\<rparr>)]\<rparr>"
    and c: "completedItems (newEvents twoFiles
         (slotPutFinished exampleEnv exampleWorld twoFiles (failedReply 500))) = [item1]"
    using slotPutFinished_error_stops [OF h1' h2, of exampleEnv exampleWorld] by blast
  have c1: "drop 1 (uploadFileParameters (slotPutFinished exampleEnv exampleWorld twoFiles (failedReply 500)))
       = [exampleEntry (exampleItem\<lparr>it_file := ''b.txt''\<rparr>)]"
    by (simp add: r)
  have c2: "length (completedItems (newEvents twoFiles
         (slotPutFinished exampleEnv exampleWorld twoFiles (failedReply 500)))) = 1"
    by (simp add: c)
  show ?thesis by (intro conjI h1 h2 c1 c2)
qed

text \<open>
  C2 as stated fails: for a batch of \<open>a.txt\<close> and \<open>b.txt\<close> whose PUT fails in the
  network, \<open>a.txt\<close> is completed with \<open>NormalError\<close>, while \<open>b.txt\<close> keeps the status
  \<open>NoStatus\<close>, is not given the request id of the reply, gets no completion signal, and
  the job does not report that it finished.
\<close>

theorem put_error_leaves_rest_counterexample:
  "map (\<lambda>f. it_file (up_item f)) (uploadFileParameters twoFiles) = [''a.txt'', ''b.txt'']
   \<and> rp_error (failedReply 500) = NetError 1
   \<and> map (\<lambda>f. it_status (up_item f))
        (uploadFileParameters (slotPutFinished exampleEnv exampleWorld twoFiles (failedReply 500)))
      = [NormalError, NoStatus]
   \<and> map (\<lambda>f. it_requestId (up_item f))
        (uploadFileParameters (slotPutFinished exampleEnv exampleWorld twoFiles (failedReply 500)))
      = [''r1'', []]
   \<and> map it_file (completedItems (trace (slotPutFinished exampleEnv exampleWorld twoFiles (failedReply 500))))
      = [''a.txt'']
   \<and> EvFinished NormalError \<notin> set (trace (slotPutFinished exampleEnv exampleWorld twoFiles (failedReply 500)))"
  by (simp add: twoFiles_def failedReply_def example_defs put_defs done_defs Let_def)

subsection \<open>Errors that reset an upload\<close>

lemma triggerOne_uploadInfo: "uploadInfo (fst (triggerOne env w s f)) = uploadInfo s"
  by (simp add: triggerOne_def Let_def split_beta abortWithError_fields emit_def split: option.split)

lemma triggerUpload_uploadInfo: "uploadInfo (triggerUpload env w s) = uploadInfo s"
  using forEachFile_invariant [of uploadInfo "triggerOne env w" s "uploadFileParameters s", OF triggerOne_uploadInfo]
  by (simp add: triggerUpload_def split_beta Let_def emit_def)

lemma doStartUpload_uploadInfo:
  "\<not> abortRequested s \<Longrightarrow>
     uploadInfo (doStartUpload env w s item ftu ck) =
       (uploadInfo s)(it_file item \<mapsto>
          \<lparr>ui_valid = True, ui_chunk = 0, ui_transferid = 0, ui_modtime = it_modtime item,
           ui_errorCount = 0, ui_contentChecksum = it_checksumHeader item, ui_size = it_size item\<rparr>)"
  by (simp add: doStartUpload_def Let_def triggerUpload_uploadInfo doneItem_fields setUploadInfo_def
        commit_def emit_def)

lemma checkResettingErrors_step:
  assumes "it_httpErrorCode item = 412 \<or> it_httpErrorCode item \<in> set (e_resetCodes env)"
  shows "uploadInfo (checkResettingErrors env s item) (it_file item) =
           (if ui_valid (getUploadInfo s (it_file item)) \<and> ui_errorCount (getUploadInfo s (it_file item)) < 3
            then Some ((getUploadInfo s (it_file item))
                         \<lparr>ui_errorCount := ui_errorCount (getUploadInfo s (it_file item)) + 1\<rparr>)
            else None)"
  using assms
  by (auto simp: checkResettingErrors_def Let_def setUploadInfo_def commit_def emit_def
        UploadInfo_default_def)

lemma getUploadInfo_None: "uploadInfo s f = None \<Longrightarrow> getUploadInfo s f = UploadInfo_default"
  by (simp add: getUploadInfo_def)

lemma checkResettingErrors_iterate:
  assumes "it_httpErrorCode item = 412 \<or> it_httpErrorCode item \<in> set (e_resetCodes env)"
  shows "uploadInfo (((\<lambda>t. checkResettingErrors env t item) ^^ Suc n) s) (it_file item) = None
         \<or> (\<exists>u. uploadInfo (((\<lambda>t. checkResettingErrors env t item) ^^ Suc n) s) (it_file item) = Some u
               \<and> ui_errorCount u = ui_errorCount (getUploadInfo s (it_file item)) + int (Suc n)
               \<and> ui_errorCount u \<le> 3)"
proof (induction n)
  case 0
  then show ?case
    using checkResettingErrors_step [OF assms, of s] by auto
next
  case (Suc n)
  define t where "t = ((\<lambda>t. checkResettingErrors env t item) ^^ Suc n) s"
  have step: "((\<lambda>t. checkResettingErrors env t item) ^^ Suc (Suc n)) s = checkResettingErrors env t item"
    by (simp add: t_def)
  from Suc.IH have "uploadInfo t (it_file item) = None
     \<or> (\<exists>u. uploadInfo t (it_file item) = Some u
               \<and> ui_errorCount u = ui_errorCount (getUploadInfo s (it_file item)) + int (Suc n)
               \<and> ui_errorCount u \<le> 3)"
    by (simp add: t_def)
  then show ?case
  proof
    assume "uploadInfo t (it_file item) = None"
    then have "uploadInfo (checkResettingErrors env t item) (it_file item) = None"
      using checkResettingErrors_step [OF assms, of t]
      by (simp add: getUploadInfo_None UploadInfo_default_def)
    then show ?thesis unfolding step by simp
  next
    assume "\<exists>u. uploadInfo t (it_file item) = Some u
               \<and> ui_errorCount u = ui_errorCount (getUploadInfo s (it_file item)) + int (Suc n)
               \<and> ui_errorCount u \<le> 3"
    then obtain u where u: "uploadInfo t (it_file item) = Some u"
        "ui_errorCount u = ui_errorCount (getUploadInfo s (it_file item)) + int (Suc n)"
      by blast
    have g: "getUploadInfo t (it_file item) = u" using u(1) by (simp add: getUploadInfo_def)
    show ?thesis
      unfolding step using checkResettingErrors_step [OF assms, of t] u(2)
      by (auto simp: g)
  qed
qed

text \<open>
  C3, as the code has it. For an item whose error code is 412 or one of the account's
  resetting codes, \<^verbatim>\<open>checkResettingErrors\<close> adds one to the error count of the file's
  valid upload record while the count stays at 3 or below, and removes the record once
  the count would exceed 3. So four such errors in a row, with no other write to the
  record in between, leave the file without an upload record, from any count that is not
  negative. Every upload start writes the record anew with the count 0, so errors of
  separate upload attempts are not added up.
\<close>

theorem checkResettingErrors_policy:
  assumes "it_httpErrorCode item = 412 \<or> it_httpErrorCode item \<in> set (e_resetCodes env)"
  shows "(ui_valid (getUploadInfo s (it_file item)) \<and> ui_errorCount (getUploadInfo s (it_file item)) < 3
            \<longrightarrow> getUploadInfo (checkResettingErrors env s item) (it_file item) =
                  (getUploadInfo s (it_file item))
                    \<lparr>ui_errorCount := ui_errorCount (getUploadInfo s (it_file item)) + 1\<rparr>)
       \<and> (3 \<le> ui_errorCount (getUploadInfo s (it_file item))
            \<longrightarrow> uploadInfo (checkResettingErrors env s item) (it_file item) = None
              \<and> getUploadInfo (checkResettingErrors env s item) (it_file item) = UploadInfo_default)
       \<and> (0 \<le> ui_errorCount (getUploadInfo s (it_file item))
            \<longrightarrow> getUploadInfo (((\<lambda>t. checkResettingErrors env t item) ^^ 4) s) (it_file item)
                  = UploadInfo_default)
       \<and> (\<not> abortRequested s
            \<longrightarrow> ui_valid (getUploadInfo (doStartUpload env w s item fileToUpload ck) (it_file item))
              \<and> ui_errorCount (getUploadInfo (doStartUpload env w s item fileToUpload ck) (it_file item)) = 0)"
proof -
  have four: "(4::nat) = Suc 3" by simp
  have a: "ui_valid (getUploadInfo s (it_file item)) \<and> ui_errorCount (getUploadInfo s (it_file item)) < 3
            \<longrightarrow> getUploadInfo (checkResettingErrors env s item) (it_file item) =
                  (getUploadInfo s (it_file item))
                    \<lparr>ui_errorCount := ui_errorCount (getUploadInfo s (it_file item)) + 1\<rparr>"
    using checkResettingErrors_step [OF assms, of s]
    by (simp add: getUploadInfo_def [of "checkResettingErrors env s item"])
  have b: "3 \<le> ui_errorCount (getUploadInfo s (it_file item))
            \<longrightarrow> uploadInfo (checkResettingErrors env s item) (it_file item) = None
              \<and> getUploadInfo (checkResettingErrors env s item) (it_file item) = UploadInfo_default"
    using checkResettingErrors_step [OF assms, of s]
    by (simp add: getUploadInfo_def [of "checkResettingErrors env s item"])
  have c: "0 \<le> ui_errorCount (getUploadInfo s (it_file item))
            \<longrightarrow> getUploadInfo (((\<lambda>t. checkResettingErrors env t item) ^^ 4) s) (it_file item)
                  = UploadInfo_default"
    using checkResettingErrors_iterate [OF assms, of 3 s] unfolding four
    by (auto simp: getUploadInfo_None)
  have d: "\<not> abortRequested s
            \<longrightarrow> ui_valid (getUploadInfo (doStartUpload env w s item fileToUpload ck) (it_file item))
              \<and> ui_errorCount (getUploadInfo (doStartUpload env w s item fileToUpload ck) (it_file item)) = 0"
    by (simp add: getUploadInfo_def doStartUpload_uploadInfo)
  show ?thesis using a b c d by blast
qed

theorem checkResettingErrors_policy_witness:
  "it_httpErrorCode (exampleItem\<lparr>it_httpErrorCode := 412\<rparr>) = 412
   \<and> ui_valid (getUploadInfo countedJournal ''a.txt'')
   \<and> ui_errorCount (getUploadInfo countedJournal ''a.txt'') = 0
   \<and> ui_errorCount (getUploadInfo (checkResettingErrors exampleEnv countedJournal
         (exampleItem\<lparr>it_httpErrorCode := 412\<rparr>)) ''a.txt'') = 1
   \<and> getUploadInfo (((\<lambda>t. checkResettingErrors exampleEnv t (exampleItem\<lparr>it_httpErrorCode := 412\<rparr>)) ^^ 4)
         countedJournal) ''a.txt'' = UploadInfo_default
   \<and> \<not> abortRequested countedJournal
   \<and> ui_errorCount (getUploadInfo (doStartUpload exampleEnv exampleWorld countedJournal
         (exampleItem\<lparr>it_httpErrorCode := 412\<rparr>) (exampleFile exampleItem) ''0f'') ''a.txt'') = 0"
proof -
  have f: "it_file (exampleItem\<lparr>it_httpErrorCode := 412\<rparr>) = ''a.txt''"
    by (simp add: exampleItem_def)
  have h: "it_httpErrorCode (exampleItem\<lparr>it_httpErrorCode := 412\<rparr>) = 412" by simp
  have v: "ui_valid (getUploadInfo countedJournal ''a.txt'')"
    "ui_errorCount (getUploadInfo countedJournal ''a.txt'') = 0"
    by (simp_all add: countedJournal_def getUploadInfo_def exampleJob_def)
  have n: "\<not> abortRequested countedJournal"
    by (simp add: countedJournal_def exampleJob_def)
  note p = checkResettingErrors_policy [of "exampleItem\<lparr>it_httpErrorCode := 412\<rparr>" exampleEnv
      countedJournal exampleWorld "exampleFile exampleItem" "''0f''", OF disjI1, OF h, unfolded f]
  have c1: "ui_errorCount (getUploadInfo (checkResettingErrors exampleEnv countedJournal
         (exampleItem\<lparr>it_httpErrorCode := 412\<rparr>)) ''a.txt'') = 1"
    using p v by simp
  have c4: "getUploadInfo (((\<lambda>t. checkResettingErrors exampleEnv t (exampleItem\<lparr>it_httpErrorCode := 412\<rparr>)) ^^ 4)
         countedJournal) ''a.txt'' = UploadInfo_default"
    using p v by simp
  have c0: "ui_errorCount (getUploadInfo (doStartUpload exampleEnv exampleWorld countedJournal
         (exampleItem\<lparr>it_httpErrorCode := 412\<rparr>) (exampleFile exampleItem) ''0f'') ''a.txt'') = 0"
    using p n by blast
  show ?thesis by (intro conjI h v c1 c4 n c0)
qed

lemma failedAttempt_journal:
  "uploadInfo (failedAttempt s) ''a.txt'' =
     Some \<lparr>ui_valid = True, ui_chunk = 0, ui_transferid = 0, ui_modtime = 1000,
           ui_errorCount = 1, ui_contentChecksum = ''MD5:0f'', ui_size = 100\<rparr>"
  by (simp add: failedAttempt_def nextSync_def failedReply_def example_defs upload_defs put_defs
        done_defs Let_def headers_def)

lemma failedAttempt_completed:
  "map it_httpErrorCode (completedItems (trace (failedAttempt s))) =
     map it_httpErrorCode (completedItems (trace s)) @ [412]"
  by (simp add: failedAttempt_def nextSync_def failedReply_def example_defs upload_defs put_defs
        done_defs Let_def headers_def completedItems_append)

text \<open>
  C3 as stated fails: the example file is uploaded in four sync runs one after the other
  and each PUT is answered with 412. After the fourth error the journal still holds the
  file's upload record, valid and with the error count 1.
\<close>

theorem errors_across_attempts_counterexample:
  "getUploadInfo (failedAttempt (failedAttempt (failedAttempt (failedAttempt exampleJob)))) ''a.txt''
     = \<lparr>ui_valid = True, ui_chunk = 0, ui_transferid = 0, ui_modtime = 1000,
        ui_errorCount = 1, ui_contentChecksum = ''MD5:0f'', ui_size = 100\<rparr>
   \<and> map it_httpErrorCode (completedItems (trace
        (failedAttempt (failedAttempt (failedAttempt (failedAttempt exampleJob))))))
     = [412, 412, 412, 412]
   \<and> getUploadInfo (failedAttempt (failedAttempt (failedAttempt (failedAttempt exampleJob)))) ''a.txt''
     \<noteq> UploadInfo_default"
  by (simp add: failedAttempt_journal failedAttempt_completed getUploadInfo_def UploadInfo_default_def
        exampleJob_def)

subsection \<open>The order of the checks, the journal write and the rename\<close>




























end
